theory Spec2Isabelle
  imports Complex_Main "HOL-Library.Finite_Map"
begin

section \<open>Data model of \<open>src/Tool.tsx\<close>\<close>

text \<open>
  The two display modes, \<^verbatim>\<open>const modes = ['light', 'dark'] as const\<close>.
\<close>

datatype Mode = Light | Dark

text \<open>
  An own property of an object is missing, present with the value \<^verbatim>\<open>undefined\<close>, or
  present with a value. Reading it gives \<^verbatim>\<open>undefined\<close> in the first two cases; object
  spread, \<^verbatim>\<open>JSON.stringify\<close> and \<^verbatim>\<open>fast-deep-equal\<close> tell the two apart.
\<close>

datatype 'a field = Missing | Undefined | Value 'a

fun read :: "'a field \<Rightarrow> 'a option" where
  "read Missing = None"
| "read Undefined = None"
| "read (Value v) = Some v"

text \<open>
  The two interfaces of the source. Every field is read through \<^verbatim>\<open>Partial<...>\<close>, a
  destructuring default or a truthiness test somewhere in the file, so every field is
  optional here. An object is seen through these fields: own properties of other names,
  which the file never reads, are not represented, and a property that holds a value holds
  one of the type that the interface declares. A theme description
  (\<^verbatim>\<open>ThemeVars\<close>) is opaque to this file and is the type parameter \<open>'t\<close>, on which
  \<^verbatim>\<open>fast-deep-equal\<close> is structural equality. \<^verbatim>\<open>attributeName\<close> has the literal type
  \<^verbatim>\<open>'theme'\<close>, a type with one value.
\<close>

datatype AttributeName = Theme

fun attributeName_string :: "AttributeName \<Rightarrow> string" where
  "attributeName_string Theme = ''theme''"

record DarkModePreviewParams =
  classTarget :: "string field"
  attributeTarget :: "string field"
  attributeName :: "AttributeName field"
  darkAttribute :: "string field"
  lightAttribute :: "string field"

record 't DarkModeParams =
  current :: "Mode field"
  dark :: "'t field"
  darkClass :: "string field"
  light :: "'t field"
  lightClass :: "string field"
  previewParams :: "DarkModePreviewParams field"

text \<open>
  What the file takes from outside: the two members of \<^verbatim>\<open>themes\<close>, imported from the
  theming package, and \<open>throughJSON\<close>, what a theme description becomes when it is written
  with \<^verbatim>\<open>JSON.stringify\<close> and read back with \<^verbatim>\<open>JSON.parse\<close> (properties that hold
  \<^verbatim>\<open>undefined\<close> or a function are dropped, \<^verbatim>\<open>NaN\<close> is written as \<^verbatim>\<open>null\<close>).
\<close>

record 't env =
  themes_dark :: 't
  themes_light :: 't
  throughJSON :: "'t \<Rightarrow> 't"

definition defaultParams :: "'t env \<Rightarrow> 't DarkModeParams" where
  "defaultParams env =
     \<lparr>current = Missing,
      dark = Value (themes_dark env),
      darkClass = Value ''dark'',
      light = Value (themes_light env),
      lightClass = Value ''light'',
      previewParams = Missing\<rparr>"

definition defaultPreviewParams :: DarkModePreviewParams where
  "defaultPreviewParams =
     \<lparr>classTarget = Value ''body'',
      attributeTarget = Missing,
      attributeName = Value Theme,
      darkAttribute = Value ''dark'',
      lightAttribute = Value ''light''\<rparr>"

text \<open>The empty object \<^verbatim>\<open>{}\<close>, the default argument of \<^verbatim>\<open>store\<close>.\<close>

definition emptyParams :: "'t DarkModeParams" where
  "emptyParams =
     \<lparr>current = Missing, dark = Missing, darkClass = Missing, light = Missing,
      lightClass = Missing, previewParams = Missing\<rparr>"

text \<open>
  Object spread \<^verbatim>\<open>{ ...a, ...b }\<close>: a property that \<open>b\<close> has wins over the same property
  of \<open>a\<close>, also when it holds \<^verbatim>\<open>undefined\<close>; the nested \<^verbatim>\<open>previewParams\<close> object is
  taken whole (the spread is shallow).
\<close>

definition orElse :: "'a field \<Rightarrow> 'a field \<Rightarrow> 'a field" where
  "orElse b a = (case b of Missing \<Rightarrow> a | Undefined \<Rightarrow> Undefined | Value v \<Rightarrow> Value v)"

definition spread :: "'t DarkModeParams \<Rightarrow> 't DarkModeParams \<Rightarrow> 't DarkModeParams" where
  "spread a b =
     \<lparr>current = orElse (current b) (current a),
      dark = orElse (dark b) (dark a),
      darkClass = orElse (darkClass b) (darkClass a),
      light = orElse (light b) (light a),
      lightClass = orElse (lightClass b) (lightClass a),
      previewParams = orElse (previewParams b) (previewParams a)\<rparr>"

text \<open>A destructuring default \<^verbatim>\<open>{ x = d }\<close>, on the value read.\<close>

definition withDefault :: "'a option \<Rightarrow> 'a \<Rightarrow> 'a" where
  "withDefault x d = (case x of None \<Rightarrow> d | Some v \<Rightarrow> v)"

text \<open>\<^verbatim>\<open>equal\<close> of fast-deep-equal, on a stored and a supplied theme.\<close>

definition deep_equal :: "'a \<Rightarrow> 'a \<Rightarrow> bool" where
  "deep_equal a b = (a = b)"

section \<open>Values and JSON\<close>

text \<open>
  A JSON value, for the elements of an array, and a value as the file holds it: what
  \<^verbatim>\<open>JSON.parse\<close> returns is any JSON value, which the source uses as a
  \<^verbatim>\<open>DarkModeParams\<close> unchecked. An array is an object too: it has its elements and, seen
  through the fields above, its named own properties.
\<close>

datatype json =
    JNull | JBool bool | JNum rat | JStr string | JArr "json list"
  | JObj "(string, json) fmap"

datatype 't jsvalue =
    VNull | VBool bool | VNum rat | VStr string
  | VArray "json list" "'t DarkModeParams"
  | VObject "'t DarkModeParams"

text \<open>
  The exceptions that the source lets through: \<^verbatim>\<open>SyntaxError\<close> from \<^verbatim>\<open>JSON.parse\<close> on
  text that is not JSON, from \<^verbatim>\<open>querySelector\<close> on a string that is not a selector and
  from \<^verbatim>\<open>classList\<close> on an empty token; \<^verbatim>\<open>InvalidCharacterError\<close> from
  \<^verbatim>\<open>classList\<close> on a token with white space; \<^verbatim>\<open>TypeError\<close> from a property read on
  \<^verbatim>\<open>null\<close> or \<^verbatim>\<open>undefined\<close> and from a property write on a primitive value (the
  module is strict code). Failures of the environment (a full or disabled storage, a
  frame of another origin) are not modelled.
\<close>

datatype error = SyntaxError | TypeError | InvalidCharacterError

text \<open>
  Reading a property of a value (\<open>fieldsOf\<close>: the object the reads go to), the own
  properties that a spread copies, and a property write.
\<close>

fun fieldsOf :: "'t jsvalue \<Rightarrow> error + 't DarkModeParams" where
  "fieldsOf VNull = Inl TypeError"
| "fieldsOf (VBool b) = Inr emptyParams"
| "fieldsOf (VNum n) = Inr emptyParams"
| "fieldsOf (VStr s) = Inr emptyParams"
| "fieldsOf (VArray es r) = Inr r"
| "fieldsOf (VObject r) = Inr r"

fun ownProperties :: "'t jsvalue \<Rightarrow> 't DarkModeParams" where
  "ownProperties VNull = emptyParams"
| "ownProperties (VBool b) = emptyParams"
| "ownProperties (VNum n) = emptyParams"
| "ownProperties (VStr s) = emptyParams"
| "ownProperties (VArray es r) = r"
| "ownProperties (VObject r) = r"

fun assign ::
    "('t DarkModeParams \<Rightarrow> 't DarkModeParams) \<Rightarrow> 't jsvalue \<Rightarrow> error + 't jsvalue" where
  "assign f VNull = Inl TypeError"
| "assign f (VBool b) = Inl TypeError"
| "assign f (VNum n) = Inl TypeError"
| "assign f (VStr s) = Inl TypeError"
| "assign f (VArray es r) = Inr (VArray es (f r))"
| "assign f (VObject r) = Inr (VObject (f r))"

text \<open>
  The text held in the storage slot \<^verbatim>\<open>STORAGE_KEY\<close> is represented by what
  \<^verbatim>\<open>JSON.parse\<close> makes of it: text that is not JSON (\<open>Malformed\<close>, with the raw text), or
  the value that the text denotes. \<^verbatim>\<open>JSON.stringify\<close> writes an object without the
  properties that hold \<^verbatim>\<open>undefined\<close>, nested ones included, with its themes as JSON
  carries them, and an array without its named properties; an \<open>item\<close> that the file has
  written therefore holds no such property.
\<close>

datatype 't item = Malformed string | Text "'t jsvalue"

fun written :: "'a field \<Rightarrow> 'a field" where
  "written Missing = Missing"
| "written Undefined = Missing"
| "written (Value v) = Value v"

fun map_field :: "('a \<Rightarrow> 'b) \<Rightarrow> 'a field \<Rightarrow> 'b field" where
  "map_field f Missing = Missing"
| "map_field f Undefined = Undefined"
| "map_field f (Value v) = Value (f v)"

definition toJSON_preview :: "DarkModePreviewParams \<Rightarrow> DarkModePreviewParams" where
  "toJSON_preview p =
     \<lparr>classTarget = written (classTarget p),
      attributeTarget = written (attributeTarget p),
      attributeName = written (attributeName p),
      darkAttribute = written (darkAttribute p),
      lightAttribute = written (lightAttribute p)\<rparr>"

definition toJSON :: "'t env \<Rightarrow> 't DarkModeParams \<Rightarrow> 't DarkModeParams" where
  "toJSON env r =
     \<lparr>current = written (current r),
      dark = map_field (throughJSON env) (written (dark r)),
      darkClass = written (darkClass r),
      light = map_field (throughJSON env) (written (light r)),
      lightClass = written (lightClass r),
      previewParams = map_field toJSON_preview (written (previewParams r))\<rparr>"

fun JSON_stringify :: "'t env \<Rightarrow> 't jsvalue \<Rightarrow> 't item" where
  "JSON_stringify env (VObject r) = Text (VObject (toJSON env r))"
| "JSON_stringify env (VArray es r) = Text (VArray es emptyParams)"
| "JSON_stringify env VNull = Text VNull"
| "JSON_stringify env (VBool b) = Text (VBool b)"
| "JSON_stringify env (VNum n) = Text (VNum n)"
| "JSON_stringify env (VStr s) = Text (VStr s)"

fun JSON_parse :: "'t item \<Rightarrow> error + 't jsvalue" where
  "JSON_parse (Malformed s) = Inl SyntaxError"
| "JSON_parse (Text v) = Inr v"


section \<open>The world the component acts on\<close>

text \<open>
  An element with its class list (a \<^verbatim>\<open>DOMTokenList\<close>, in order) and its attributes. A
  document knows which strings are selectors and answers \<^verbatim>\<open>querySelector\<close> from the
  present state of its elements; elements are referred to by number.
\<close>

record element =
  classList :: "string list"
  attributes :: "string \<rightharpoonup> string"

record document =
  validSelector :: "string \<Rightarrow> bool"
  querySelector :: "string \<Rightarrow> (nat \<Rightarrow> element) \<Rightarrow> nat option"
  nodes :: "nat \<Rightarrow> element"

text \<open>
  The preview frame; \<open>contentDocument\<close> is the value of
  \<^verbatim>\<open>iframe.contentDocument || iframe.contentWindow?.document\<close>.
\<close>

datatype iframe = Iframe (contentDocument: "document option")

text \<open>An \<^verbatim>\<open>HTMLElement\<close> reference: the manager's body or an element of the preview.\<close>

datatype surface = ManagerBody | PreviewNode nat

text \<open>Every call that leaves the component and completes, in the order it is made.\<close>

datatype 't event =
    SetItem "'t jsvalue"
  | SetOptions "'t option"
  | SetDark bool
  | Emit bool
  | ClassAdd surface string
  | ClassRemove surface string
  | SetAttribute surface string string

record 't world =
  localStorage :: "'t item option"
  body :: "element option"
  iframe :: "iframe option"
  theme :: "'t option"
  isDark :: bool
  trace :: "'t event list"

section \<open>Storage and the surface applicators\<close>

definition updateStore :: "'t env \<Rightarrow> 't jsvalue \<Rightarrow> 't world \<Rightarrow> 't world" where
  "updateStore env newStore w =
     w\<lparr>localStorage := Some (JSON_stringify env newStore),
       trace := trace w @ [SetItem newStore]\<rparr>"

definition update_node :: "nat \<Rightarrow> (element \<Rightarrow> element) \<Rightarrow> document \<Rightarrow> document" where
  "update_node n f d = d\<lparr>nodes := (nodes d)(n := f (nodes d n))\<rparr>"

fun mutate :: "surface \<Rightarrow> (element \<Rightarrow> element) \<Rightarrow> 't world \<Rightarrow> 't world" where
  "mutate ManagerBody f w = w\<lparr>body := map_option f (body w)\<rparr>"
| "mutate (PreviewNode n) f w =
     w\<lparr>iframe :=
         map_option (\<lambda>fr. Iframe (map_option (update_node n f) (contentDocument fr)))
           (iframe w)\<rparr>"

definition token_add :: "string \<Rightarrow> element \<Rightarrow> element" where
  "token_add c e =
     e\<lparr>classList := (if c \<in> set (classList e) then classList e else classList e @ [c])\<rparr>"

definition token_remove :: "string \<Rightarrow> element \<Rightarrow> element" where
  "token_remove c e = e\<lparr>classList := removeAll c (classList e)\<rparr>"

text \<open>
  \<^verbatim>\<open>classList.add\<close> and \<^verbatim>\<open>classList.remove\<close> first validate the token: the empty string
  is a \<^verbatim>\<open>SyntaxError\<close>, a token with ASCII white space an \<^verbatim>\<open>InvalidCharacterError\<close>.
\<close>

definition ascii_whitespace :: "char list" where
  "ascii_whitespace = [CHR 0x09, CHR 0x0A, CHR 0x0C, CHR 0x0D, CHR 0x20]"

definition validate_token :: "string \<Rightarrow> error option" where
  "validate_token c =
     (if c = [] then Some SyntaxError
      else if list_ex (\<lambda>x. x \<in> set ascii_whitespace) c then Some InvalidCharacterError
      else None)"

definition classList_add :: "surface \<Rightarrow> string \<Rightarrow> 't world \<Rightarrow> (error + unit) \<times> 't world" where
  "classList_add el c w =
     (case validate_token c of
        Some e \<Rightarrow> (Inl e, w)
      | None \<Rightarrow> (Inr (), (mutate el (token_add c) w)\<lparr>trace := trace w @ [ClassAdd el c]\<rparr>))"

definition classList_remove :: "surface \<Rightarrow> string \<Rightarrow> 't world \<Rightarrow> (error + unit) \<times> 't world"
    where
  "classList_remove el c w =
     (case validate_token c of
        Some e \<Rightarrow> (Inl e, w)
      | None \<Rightarrow> (Inr (), (mutate el (token_remove c) w)\<lparr>trace := trace w @ [ClassRemove el c]\<rparr>))"

definition setAttribute :: "surface \<Rightarrow> string \<Rightarrow> string \<Rightarrow> 't world \<Rightarrow> 't world" where
  "setAttribute el name v w =
     (mutate el (\<lambda>e. e\<lparr>attributes := (attributes e)(name \<mapsto> v)\<rparr>) w)
       \<lparr>trace := trace w @ [SetAttribute el name v]\<rparr>"

text \<open>
  The applicators take the object their caller read from the store, through its fields:
  \<^verbatim>\<open>setMode\<close> has read a property of it before it calls them, so it is not \<^verbatim>\<open>null\<close>.
\<close>

definition toggleDarkClass ::
    "'t env \<Rightarrow> surface \<Rightarrow> 't DarkModeParams \<Rightarrow> 't world \<Rightarrow> (error + unit) \<times> 't world" where
  "toggleDarkClass env el r w =
     (let darkC = withDefault (read (darkClass r)) (the (read (darkClass (defaultParams env))));
          lightC = withDefault (read (lightClass r)) (the (read (lightClass (defaultParams env))))
      in if read (current r) = Some Dark
         then (case classList_add el darkC w of
                 (Inl e, w1) \<Rightarrow> (Inl e, w1)
               | (Inr u, w1) \<Rightarrow> classList_remove el lightC w1)
         else (case classList_add el lightC w of
                 (Inl e, w1) \<Rightarrow> (Inl e, w1)
               | (Inr u, w1) \<Rightarrow> classList_remove el darkC w1))"

definition toggleDarkAttribute ::
    "surface \<Rightarrow> 't DarkModeParams \<Rightarrow> 't world \<Rightarrow> (error + unit) \<times> 't world" where
  "toggleDarkAttribute el r w =
     (case read (previewParams r) of
        None \<Rightarrow> (Inl TypeError, w)
      | Some pp \<Rightarrow>
          (let name = attributeName_string
                        (withDefault (read (attributeName pp))
                           (the (read (attributeName defaultPreviewParams))));
               darkA = withDefault (read (darkAttribute pp))
                         (the (read (darkAttribute defaultPreviewParams)));
               lightA = withDefault (read (lightAttribute pp))
                          (the (read (lightAttribute defaultPreviewParams)))
           in if read (current r) = Some Dark
              then (Inr (), setAttribute el name darkA w)
              else (Inr (), setAttribute el name lightA w)))"

text \<open>
  \<^verbatim>\<open>querySelector\<close> of the preview document as it is now; a missing selector is
  converted to the string \<^verbatim>\<open>undefined\<close>, as the DOM does with its argument, and a string
  that is not a selector is a \<^verbatim>\<open>SyntaxError\<close>.
\<close>

definition selector :: "string option \<Rightarrow> string" where
  "selector s = withDefault s ''undefined''"

definition iframeDocument :: "'t world \<Rightarrow> document option" where
  "iframeDocument w = (case iframe w of None \<Rightarrow> None | Some fr \<Rightarrow> contentDocument fr)"

definition query :: "string \<Rightarrow> 't world \<Rightarrow> error + nat option" where
  "query sel w =
     (case iframeDocument w of
        None \<Rightarrow> Inr None
      | Some d \<Rightarrow>
          (if validSelector d sel then Inr (querySelector d sel (nodes d)) else Inl SyntaxError))"

definition updatePreview ::
    "'t env \<Rightarrow> 't DarkModeParams \<Rightarrow> 't world \<Rightarrow> (error + unit) \<times> 't world" where
  "updatePreview env store w =
     (case iframe w of
        None \<Rightarrow> (Inr (), w)
      | Some fr \<Rightarrow>
          (case contentDocument fr of
             None \<Rightarrow> (Inr (), w)
           | Some d \<Rightarrow>
               (case read (previewParams store) of
                  None \<Rightarrow> (Inl TypeError, w)
                | Some pp \<Rightarrow>
                    (case query (selector (read (classTarget pp))) w of
                       Inl e \<Rightarrow> (Inl e, w)
                     | Inr None \<Rightarrow> (Inr (), w)
                     | Inr (Some ct) \<Rightarrow>
                         (case toggleDarkClass env (PreviewNode ct) store w of
                            (Inl e, w1) \<Rightarrow> (Inl e, w1)
                          | (Inr u, w1) \<Rightarrow>
                              (case query (selector (read (attributeTarget pp))) w1 of
                                 Inl e \<Rightarrow> (Inl e, w1)
                               | Inr None \<Rightarrow> (Inr (), w1)
                               | Inr (Some tgt) \<Rightarrow>
                                   toggleDarkAttribute (PreviewNode tgt) store w1))))))"

definition updateManager ::
    "'t env \<Rightarrow> 't DarkModeParams \<Rightarrow> 't world \<Rightarrow> (error + unit) \<times> 't world" where
  "updateManager env store w =
     (case body w of
        None \<Rightarrow> (Inr (), w)
      | Some manager \<Rightarrow> toggleDarkClass env ManagerBody store w)"

text \<open>
  \<^verbatim>\<open>store\<close>: the read of the slot, the two theme overrides with their write-through, and
  the defaults when the slot is empty. A theme object is always truthy, so
  \<^verbatim>\<open>userTheme.dark && ...\<close> tests that the override is supplied; \<^verbatim>\<open>stored.dark\<close> is then
  read, and written when the themes differ.
\<close>

definition store ::
    "'t env \<Rightarrow> 't DarkModeParams \<Rightarrow> 't world \<Rightarrow> (error + 't jsvalue) \<times> 't world" where
  "store env userTheme w =
     (case localStorage w of
        Some storedItem \<Rightarrow>
          (case JSON_parse storedItem of
             Inl e \<Rightarrow> (Inl e, w)
           | Inr stored \<Rightarrow>
               (case (if read (dark userTheme) \<noteq> None
                      then (case fieldsOf stored of
                              Inl e \<Rightarrow> (Inl e, w)
                            | Inr r \<Rightarrow>
                                (if \<not> deep_equal (read (dark r)) (read (dark userTheme))
                                 then (case assign (\<lambda>r. r\<lparr>dark := dark userTheme\<rparr>) stored of
                                         Inl e \<Rightarrow> (Inl e, w)
                                       | Inr stored1 \<Rightarrow> (Inr stored1, updateStore env stored1 w))
                                 else (Inr stored, w)))
                      else (Inr stored, w)) of
                  (Inl e, w1) \<Rightarrow> (Inl e, w1)
                | (Inr stored1, w1) \<Rightarrow>
                    (if read (light userTheme) \<noteq> None
                     then (case fieldsOf stored1 of
                             Inl e \<Rightarrow> (Inl e, w1)
                           | Inr r \<Rightarrow>
                               (if \<not> deep_equal (read (light r)) (read (light userTheme))
                                then (case assign (\<lambda>r. r\<lparr>light := light userTheme\<rparr>) stored1 of
                                        Inl e \<Rightarrow> (Inl e, w1)
                                      | Inr stored2 \<Rightarrow>
                                          (Inr stored2, updateStore env stored2 w1))
                                else (Inr stored1, w1)))
                     else (Inr stored1, w1))))
      | None \<Rightarrow> (Inr (VObject (spread (defaultParams env) userTheme)), w))"

section \<open>The component\<close>

text \<open>
  The callbacks of \<^verbatim>\<open>DarkMode\<close>. \<open>pp\<close> is the \<^verbatim>\<open>previewParams\<close> of the parameters
  the component was rendered with, which \<^verbatim>\<open>setMode\<close> closes over. \<^verbatim>\<open>setMode\<close> reads
  \<^verbatim>\<open>currentStore[mode]\<close> first, which throws on \<^verbatim>\<open>null\<close>.
\<close>

definition setOptions :: "'t option \<Rightarrow> 't world \<Rightarrow> 't world" where
  "setOptions t w = w\<lparr>theme := t, trace := trace w @ [SetOptions t]\<rparr>"

definition setDark :: "bool \<Rightarrow> 't world \<Rightarrow> 't world" where
  "setDark b w = w\<lparr>isDark := b, trace := trace w @ [SetDark b]\<rparr>"

definition emit :: "bool \<Rightarrow> 't world \<Rightarrow> 't world" where
  "emit b w = w\<lparr>trace := trace w @ [Emit b]\<rparr>"

fun themeOf :: "'t DarkModeParams \<Rightarrow> Mode \<Rightarrow> 't option" where
  "themeOf r Dark = read (dark r)"
| "themeOf r Light = read (light r)"

definition setMode ::
    "'t env \<Rightarrow> DarkModePreviewParams option \<Rightarrow> Mode \<Rightarrow> 't world \<Rightarrow> (error + unit) \<times> 't world"
    where
  "setMode env pp mode w =
     (case store env emptyParams w of
        (Inl e, w1) \<Rightarrow> (Inl e, w1)
      | (Inr currentStore, w1) \<Rightarrow>
          (case fieldsOf currentStore of
             Inl e \<Rightarrow> (Inl e, w1)
           | Inr r \<Rightarrow>
               (let w2 = setOptions (themeOf r mode) w1;
                    w3 = setDark (mode = Dark) w2;
                    w4 = emit (mode = Dark) w3
                in case updateManager env r w4 of
                     (Inl e, w5) \<Rightarrow> (Inl e, w5)
                   | (Inr u, w5) \<Rightarrow>
                       (if pp \<noteq> None then updatePreview env r w5 else (Inr (), w5)))))"

text \<open>
  \<^verbatim>\<open>updateMode\<close> reads \<^verbatim>\<open>currentStore.current\<close> only when it is given no mode, and
  writes a new object, the spread of what it read with \<^verbatim>\<open>current\<close> set.
\<close>

definition updateMode ::
    "'t env \<Rightarrow> DarkModePreviewParams option \<Rightarrow> Mode option \<Rightarrow> 't world
       \<Rightarrow> (error + unit) \<times> 't world" where
  "updateMode env pp mode w =
     (case store env emptyParams w of
        (Inl e, w1) \<Rightarrow> (Inl e, w1)
      | (Inr currentStore, w1) \<Rightarrow>
          (case (case mode of
                   Some m \<Rightarrow> Inr m
                 | None \<Rightarrow>
                     (case fieldsOf currentStore of
                        Inl e \<Rightarrow> Inl e
                      | Inr r \<Rightarrow> Inr (if read (current r) = Some Dark then Light else Dark))) of
             Inl e \<Rightarrow> (Inl e, w1)
           | Inr cur \<Rightarrow>
               setMode env pp cur
                 (updateStore env (VObject ((ownProperties currentStore)\<lparr>current := Value cur\<rparr>))
                    w1)))"

definition renderTheme ::
    "'t env \<Rightarrow> DarkModePreviewParams option \<Rightarrow> 't world \<Rightarrow> (error + unit) \<times> 't world" where
  "renderTheme env pp w =
     (case store env emptyParams w of
        (Inl e, w1) \<Rightarrow> (Inl e, w1)
      | (Inr s, w1) \<Rightarrow>
          (case fieldsOf s of
             Inl e \<Rightarrow> (Inl e, w1)
           | Inr r \<Rightarrow> setMode env pp (withDefault (read (current r)) Light) w1))"

text \<open>
  The first render and the effects that follow it, in the order the component declares
  them. \<open>initialMode\<close> is the \<^verbatim>\<open>useMemo\<close> of the render, on \<open>params\<close>: the parameters
  without \<^verbatim>\<open>current\<close> and \<^verbatim>\<open>previewParams\<close>. \<open>configEffect\<close> is the effect on
  \<^verbatim>\<open>darkModeParams\<close>; \<open>initEffect\<close> is the last effect, with \<open>matches\<close> the value of
  \<^verbatim>\<open>prefersDark.matches\<close>. The two effects that only register listeners change nothing
  here. An effect that throws ends the run of the effects.
\<close>

definition params :: "'t DarkModeParams \<Rightarrow> 't DarkModeParams" where
  "params darkModeParams = darkModeParams\<lparr>current := Missing, previewParams := Missing\<rparr>"

definition initialMode ::
    "'t env \<Rightarrow> 't DarkModeParams \<Rightarrow> 't world \<Rightarrow> (error + Mode option) \<times> 't world" where
  "initialMode env darkModeParams w =
     (case store env (params darkModeParams) w of
        (Inl e, w1) \<Rightarrow> (Inl e, w1)
      | (Inr s, w1) \<Rightarrow>
          (case fieldsOf s of
             Inl e \<Rightarrow> (Inl e, w1)
           | Inr r \<Rightarrow> (Inr (read (current r)), w1)))"

definition configEffect ::
    "'t env \<Rightarrow> 't DarkModeParams \<Rightarrow> 't world \<Rightarrow> (error + unit) \<times> 't world" where
  "configEffect env darkModeParams w =
     (case store env emptyParams w of
        (Inl e, w1) \<Rightarrow> (Inl e, w1)
      | (Inr currentStore, w1) \<Rightarrow>
          renderTheme env (read (previewParams darkModeParams))
            (updateStore env (VObject (spread (ownProperties currentStore) darkModeParams)) w1))"

definition initEffect ::
    "'t env \<Rightarrow> 't DarkModeParams \<Rightarrow> bool \<Rightarrow> Mode option \<Rightarrow> 't world
       \<Rightarrow> (error + unit) \<times> 't world" where
  "initEffect env darkModeParams matches initMode w =
     (if initMode \<noteq> None then (Inr (), w)
      else (case read (current darkModeParams) of
              Some defaultMode \<Rightarrow>
                updateMode env (read (previewParams darkModeParams)) (Some defaultMode) w
            | None \<Rightarrow>
                (if matches
                 then updateMode env (read (previewParams darkModeParams)) (Some Dark) w
                 else (Inr (), w))))"

definition mount ::
    "'t env \<Rightarrow> 't DarkModeParams \<Rightarrow> bool \<Rightarrow> 't world \<Rightarrow> (error + unit) \<times> 't world" where
  "mount env darkModeParams matches w =
     (case initialMode env darkModeParams (w\<lparr>isDark := matches\<rparr>) of
        (Inl e, w1) \<Rightarrow> (Inl e, w1)
      | (Inr initMode, w1) \<Rightarrow>
          (case configEffect env darkModeParams w1 of
             (Inl e, w2) \<Rightarrow> (Inl e, w2)
           | (Inr u, w2) \<Rightarrow> initEffect env darkModeParams matches initMode w2))"

section \<open>Observations on the trace\<close>

text \<open>
  The surface an applicator call acts on; the calls on the host shell, on the embedded
  frame, the notifications and the writes of the slot.
\<close>

fun surfaceOf :: "'t event \<Rightarrow> surface option" where
  "surfaceOf (ClassAdd el c) = Some el"
| "surfaceOf (ClassRemove el c) = Some el"
| "surfaceOf (SetAttribute el n v) = Some el"
| "surfaceOf (SetItem r) = None"
| "surfaceOf (SetOptions t) = None"
| "surfaceOf (SetDark b) = None"
| "surfaceOf (Emit b) = None"

definition isShell :: "'t event \<Rightarrow> bool" where
  "isShell e = (surfaceOf e = Some ManagerBody)"

definition isFrame :: "'t event \<Rightarrow> bool" where
  "isFrame e = (case surfaceOf e of Some (PreviewNode n) \<Rightarrow> True | _ \<Rightarrow> False)"

definition isApplicator :: "'t event \<Rightarrow> bool" where
  "isApplicator e = (surfaceOf e \<noteq> None)"

fun isEmit :: "'t event \<Rightarrow> bool" where
  "isEmit (Emit b) = True"
| "isEmit e = False"


text \<open>
  \<open>all_before P Q es\<close>: in \<open>es\<close> every \<open>P\<close> call is made before every \<open>Q\<close> call, that
  is, from a \<open>Q\<close> call on there is no \<open>P\<close> call. \<open>fresh w w'\<close> are the calls made on
  the way from \<open>w\<close> to \<open>w'\<close>.
\<close>

fun all_before :: "('e \<Rightarrow> bool) \<Rightarrow> ('e \<Rightarrow> bool) \<Rightarrow> 'e list \<Rightarrow> bool" where
  "all_before P Q [] = True"
| "all_before P Q (e # es) = (\<not> (Q e \<and> list_ex P (e # es)) \<and> all_before P Q es)"

definition fresh :: "'t world \<Rightarrow> 't world \<Rightarrow> 't event list" where
  "fresh w w' = drop (length (trace w)) (trace w')"

text \<open>
  The class names that \<^verbatim>\<open>toggleDarkClass\<close> adds and removes for a record, the class list
  of an element, and the mode held in the slot.
\<close>

definition activeClass :: "'t DarkModeParams \<Rightarrow> string" where
  "activeClass r =
     (if read (current r) = Some Dark then withDefault (read (darkClass r)) ''dark''
      else withDefault (read (lightClass r)) ''light'')"

definition inactiveClass :: "'t DarkModeParams \<Rightarrow> string" where
  "inactiveClass r =
     (if read (current r) = Some Dark then withDefault (read (lightClass r)) ''light''
      else withDefault (read (darkClass r)) ''dark'')"

fun classesOf :: "surface \<Rightarrow> 't world \<Rightarrow> string list option" where
  "classesOf ManagerBody w = map_option classList (body w)"
| "classesOf (PreviewNode n) w = map_option (\<lambda>d. classList (nodes d n)) (iframeDocument w)"

definition persistedCurrent :: "'t world \<Rightarrow> Mode option" where
  "persistedCurrent w =
     (case localStorage w of
        Some (Text v) \<Rightarrow> read (current (ownProperties v))
      | Some (Malformed s) \<Rightarrow> None
      | None \<Rightarrow> None)"



section \<open>Example inputs\<close>

text \<open>
  Themes that JSON carries unchanged. A manager page with a body and no preview frame,
  with an empty slot, with a stored record whose mode is light, with text in the slot that
  is not JSON, with the text \<^verbatim>\<open>null\<close> and with the text \<^verbatim>\<open>42\<close> in the slot.
\<close>

definition ex_env :: "string env" where
  "ex_env = \<lparr>themes_dark = ''#000'', themes_light = ''#fff'', throughJSON = (\<lambda>t. t)\<rparr>"

definition ex_element :: element where
  "ex_element = \<lparr>classList = [], attributes = Map.empty\<rparr>"

definition ex_world :: "string world" where
  "ex_world =
     \<lparr>localStorage = None, body = Some ex_element, iframe = None, theme = None,
      isDark = False, trace = []\<rparr>"

definition ex_light :: "string DarkModeParams" where
  "ex_light =
     \<lparr>current = Value Light, dark = Value ''#000'', darkClass = Value ''dark'',
      light = Value ''#fff'', lightClass = Value ''light'', previewParams = Missing\<rparr>"

definition ex_stored :: "string world" where
  "ex_stored = ex_world\<lparr>localStorage := Some (Text (VObject ex_light))\<rparr>"

definition ex_malformed :: "string world" where
  "ex_malformed = ex_world\<lparr>localStorage := Some (Malformed ''{'')\<rparr>"

definition ex_null :: "string world" where
  "ex_null = ex_world\<lparr>localStorage := Some (Text VNull)\<rparr>"

definition ex_number :: "string world" where
  "ex_number = ex_world\<lparr>localStorage := Some (Text (VNum 42))\<rparr>"

definition ex_overrides :: "string DarkModeParams" where
  "ex_overrides = emptyParams\<lparr>dark := Value ''#111''\<rparr>"


definition ex_default_dark :: "string DarkModeParams" where
  "ex_default_dark = emptyParams\<lparr>current := Value Dark\<rparr>"

text \<open>
  A record whose class for dark is the empty string and a record that names both classes
  alike; a preview frame whose document has a body; a world with that frame and a stored
  record, dark, that configures the preview.
\<close>

definition ex_blank :: "string DarkModeParams" where
  "ex_blank = ex_light\<lparr>current := Value Dark, darkClass := Value []\<rparr>"

definition ex_same :: "string DarkModeParams" where
  "ex_same = ex_light\<lparr>current := Value Dark, darkClass := Value ''theme'', lightClass := Value ''theme''\<rparr>"

definition ex_document :: document where
  "ex_document =
     \<lparr>validSelector = (\<lambda>sel. sel \<noteq> []),
      querySelector = (\<lambda>sel ns. if sel = ''body'' then Some 0 else None),
      nodes = (\<lambda>n. ex_element)\<rparr>"

definition ex_preview :: DarkModePreviewParams where
  "ex_preview =
     \<lparr>classTarget = Value ''body'', attributeTarget = Value ''body'', attributeName = Missing,
      darkAttribute = Missing, lightAttribute = Missing\<rparr>"

definition ex_framed :: "string world" where
  "ex_framed =
     ex_world\<lparr>localStorage :=
                Some (Text (VObject (ex_light\<lparr>current := Value Dark,
                                               previewParams := Value ex_preview\<rparr>))),
              iframe := Some (Iframe (Some ex_document))\<rparr>"

section \<open>What each operation leaves alone, and the calls it makes\<close>

lemma all_before_append:
  "all_before P Q (xs @ ys) =
     (all_before P Q xs \<and> all_before P Q ys \<and> (list_ex Q xs \<longrightarrow> \<not> list_ex P ys))"
  by (induction xs) (auto simp: list_ex_iff)

lemma all_before_no_Q: "list_all (\<lambda>e. \<not> Q e) xs \<Longrightarrow> all_before P Q xs"
  by (induction xs) auto

lemma all_before_no_P: "list_all (\<lambda>e. \<not> P e) xs \<Longrightarrow> all_before P Q xs"
  by (induction xs) (auto simp: list_ex_iff list_all_iff)

lemma mutate_frame [simp]:
  "localStorage (mutate el f w) = localStorage w"
  "trace (mutate el f w) = trace w"
  "isDark (mutate el f w) = isDark w"
  "theme (mutate el f w) = theme w"
  by (cases el; simp)+

lemma mutate_trace_update: "mutate el f (w\<lparr>trace := t\<rparr>) = (mutate el f w)\<lparr>trace := t\<rparr>"
  by (cases el) simp_all

lemma mutate_mutate: "mutate el f (mutate el g w) = mutate el (\<lambda>e. f (g e)) w"
proof (cases el)
  case ManagerBody
  then show ?thesis by (simp add: option.map_comp comp_def)
next
  case (PreviewNode n)
  have "update_node n f (update_node n g d) = update_node n (\<lambda>e. f (g e)) d" for d
    by (simp add: update_node_def)
  then show ?thesis
    using PreviewNode by (simp add: option.map_comp comp_def)
qed

text \<open>
  The applicator by cases: the token of the active mode is validated and added, then the
  token of the other mode is validated and removed.
\<close>

lemma toggleDarkClass_cases:
  "toggleDarkClass env el r w =
     (case validate_token (activeClass r) of
        Some e \<Rightarrow> (Inl e, w)
      | None \<Rightarrow>
          (case validate_token (inactiveClass r) of
             Some e \<Rightarrow>
               (Inl e, (mutate el (token_add (activeClass r)) w)
                          \<lparr>trace := trace w @ [ClassAdd el (activeClass r)]\<rparr>)
           | None \<Rightarrow>
               (Inr (),
                (mutate el (\<lambda>e. token_remove (inactiveClass r) (token_add (activeClass r) e)) w)
                  \<lparr>trace := trace w @ [ClassAdd el (activeClass r),
                                        ClassRemove el (inactiveClass r)]\<rparr>)))"
  by (simp add: toggleDarkClass_def classList_add_def classList_remove_def Let_def
      activeClass_def inactiveClass_def defaultParams_def mutate_trace_update mutate_mutate
      split: option.splits)

lemma toggleDarkClass_completes:
  "(fst (toggleDarkClass env el r w) = Inr ()) =
     (validate_token (activeClass r) = None \<and> validate_token (inactiveClass r) = None)"
  by (simp add: toggleDarkClass_cases split: option.splits)

lemma toggleDarkClass_frame [simp]:
  "localStorage (snd (toggleDarkClass env el r w)) = localStorage w"
  "isDark (snd (toggleDarkClass env el r w)) = isDark w"
  "theme (snd (toggleDarkClass env el r w)) = theme w"
  by (simp_all add: toggleDarkClass_cases split: option.splits)

lemma toggleDarkClass_trace:
  "\<exists>es. trace (snd (toggleDarkClass env el r w)) = trace w @ es \<and>
        list_all (\<lambda>e. surfaceOf e = Some el) es"
  by (simp add: toggleDarkClass_cases split: option.splits)

lemma toggleDarkAttribute_frame [simp]:
  "localStorage (snd (toggleDarkAttribute el r w)) = localStorage w"
  "isDark (snd (toggleDarkAttribute el r w)) = isDark w"
  "theme (snd (toggleDarkAttribute el r w)) = theme w"
  by (simp_all add: toggleDarkAttribute_def setAttribute_def Let_def split: option.splits)

lemma toggleDarkAttribute_trace:
  "\<exists>es. trace (snd (toggleDarkAttribute el r w)) = trace w @ es \<and>
        list_all (\<lambda>e. surfaceOf e = Some el) es"
  by (simp add: toggleDarkAttribute_def setAttribute_def Let_def split: option.splits)

lemma updateManager_frame [simp]:
  "localStorage (snd (updateManager env r w)) = localStorage w"
  "isDark (snd (updateManager env r w)) = isDark w"
  "theme (snd (updateManager env r w)) = theme w"
  by (simp_all add: updateManager_def split: option.splits)

lemma updateManager_trace:
  "\<exists>es. trace (snd (updateManager env r w)) = trace w @ es \<and> list_all isShell es"
proof (cases "body w")
  case None
  then show ?thesis by (simp add: updateManager_def)
next
  case (Some m)
  then show ?thesis
    using toggleDarkClass_trace [of env ManagerBody r w]
    by (auto simp add: updateManager_def isShell_def list_all_iff)
qed

lemma frame_events:
  "list_all (\<lambda>e. surfaceOf e = Some (PreviewNode n)) es \<Longrightarrow> list_all isFrame es"
  by (simp add: list_all_iff isFrame_def)

lemma updatePreview_world:
  "\<exists>ct tgt. snd (updatePreview env r w) = w
     \<or> snd (updatePreview env r w) = snd (toggleDarkClass env (PreviewNode ct) r w)
     \<or> snd (updatePreview env r w) =
          snd (toggleDarkAttribute (PreviewNode tgt) r
                (snd (toggleDarkClass env (PreviewNode ct) r w)))"
proof (cases "\<exists>fr d pp ct. iframe w = Some fr \<and> contentDocument fr = Some d \<and>
                read (previewParams r) = Some pp \<and> query (selector (read (classTarget pp))) w = Inr (Some ct)")
  case False
  then have "snd (updatePreview env r w) = w"
    by (auto simp add: updatePreview_def split: option.splits sum.splits)
  then show ?thesis by simp
next
  case True
  then obtain fr d pp ct where h: "iframe w = Some fr" "contentDocument fr = Some d"
      "read (previewParams r) = Some pp" "query (selector (read (classTarget pp))) w = Inr (Some ct)"
    by blast
  obtain x w1 where tg: "toggleDarkClass env (PreviewNode ct) r w = (x, w1)"
    by (cases "toggleDarkClass env (PreviewNode ct) r w")
  show ?thesis
  proof (cases "\<exists>tgt. x = Inr () \<and> query (selector (read (attributeTarget pp))) w1 = Inr (Some tgt)")
    case False
    then have "snd (updatePreview env r w) = w1"
      using h tg by (auto simp add: updatePreview_def split: option.splits sum.splits)
    with tg show ?thesis by (intro exI [of _ ct]) simp
  next
    case True
    then obtain tgt where a: "x = Inr ()" "query (selector (read (attributeTarget pp))) w1 = Inr (Some tgt)"
      by blast
    have "snd (updatePreview env r w) = snd (toggleDarkAttribute (PreviewNode tgt) r w1)"
      using h tg a by (simp add: updatePreview_def)
    with tg show ?thesis by (intro exI [of _ ct] exI [of _ tgt]) simp
  qed
qed

lemma updatePreview_frame [simp]:
  "localStorage (snd (updatePreview env r w)) = localStorage w"
  "isDark (snd (updatePreview env r w)) = isDark w"
  "theme (snd (updatePreview env r w)) = theme w"
  using updatePreview_world [of env r w] by auto

lemma updatePreview_trace:
  "\<exists>es. trace (snd (updatePreview env r w)) = trace w @ es \<and> list_all isFrame es"
proof -
  have tog: "\<exists>es. trace (snd (toggleDarkClass env (PreviewNode ct) r w)) = trace w @ es
               \<and> list_all isFrame es" for ct
    using toggleDarkClass_trace [of env "PreviewNode ct" r w] frame_events by auto
  have att: "\<exists>es. trace (snd (toggleDarkAttribute (PreviewNode tgt) r
                           (snd (toggleDarkClass env (PreviewNode ct) r w)))) = trace w @ es
               \<and> list_all isFrame es" for ct tgt
  proof -
    obtain es1 where e1: "trace (snd (toggleDarkClass env (PreviewNode ct) r w)) = trace w @ es1"
        "list_all isFrame es1"
      using tog by blast
    obtain es2 where e2: "trace (snd (toggleDarkAttribute (PreviewNode tgt) r
                           (snd (toggleDarkClass env (PreviewNode ct) r w))))
          = trace (snd (toggleDarkClass env (PreviewNode ct) r w)) @ es2" "list_all isFrame es2"
      using toggleDarkAttribute_trace [of "PreviewNode tgt" r] frame_events by blast
    show ?thesis
      using e1 e2 by (intro exI [of _ "es1 @ es2"]) simp
  qed
  have nil: "\<exists>es. trace w = trace w @ es \<and> list_all isFrame es"
    by (intro exI [of _ "[]"]) simp
  show ?thesis
    using updatePreview_world [of env r w] tog att nil by (elim disjE exE) simp_all
qed

lemma valid_example_tokens:
  "validate_token ''dark'' = None" "validate_token ''light'' = None"
  "validate_token ''theme'' = None" "validate_token [] = Some SyntaxError"
  by (simp_all add: validate_token_def ascii_whitespace_def)

lemma store_empty_slot:
  "localStorage w = None \<Longrightarrow>
   store env ut w = (Inr (VObject (spread (defaultParams env) ut)), w)"
  by (simp add: store_def)

lemma store_malformed:
  "localStorage w = Some (Malformed s) \<Longrightarrow> store env ut w = (Inl SyntaxError, w)"
  by (simp add: store_def)

lemma store_emptyParams:
  "store env emptyParams w =
     (case localStorage w of
        None \<Rightarrow> (Inr (VObject (defaultParams env)), w)
      | Some storedItem \<Rightarrow> (JSON_parse storedItem, w))"
  by (simp add: store_def emptyParams_def spread_def orElse_def defaultParams_def
      split: option.splits sum.splits)

lemma store_emptyParams_world: "snd (store env emptyParams w) = w"
  by (simp add: store_emptyParams split: option.splits)

lemma store_emptyParams_eq:
  "fst (store env emptyParams w) = x \<Longrightarrow> store env emptyParams w = (x, w)"
  using store_emptyParams_world [of env w] by (cases "store env emptyParams w") simp

lemma store_emptyParams_Text:
  "localStorage w = Some (Text v) \<Longrightarrow> store env emptyParams w = (Inr v, w)"
  by (simp add: store_emptyParams)

lemma store_after_updateStore:
  "store env emptyParams (updateStore env v w) =
     (JSON_parse (JSON_stringify env v), updateStore env v w)"
  by (simp add: store_emptyParams updateStore_def)

lemma store_Json:
  assumes "localStorage w = Some (Text (VObject s))"
  shows "store env ut w =
     (let d = (read (dark ut) \<noteq> None \<and> read (dark ut) \<noteq> read (dark s));
          l = (read (light ut) \<noteq> None \<and> read (light ut) \<noteq> read (light s));
          s1 = (if d then s\<lparr>dark := dark ut\<rparr> else s);
          s2 = (if l then s1\<lparr>light := light ut\<rparr> else s1)
      in (Inr (VObject s2),
          if d \<or> l
          then w\<lparr>localStorage := Some (JSON_stringify env (VObject s2)),
                 trace := trace w @ (if d then [SetItem (VObject s1)] else [])
                            @ (if l then [SetItem (VObject s2)] else [])\<rparr>
          else w))"
  using assms
  by (auto simp add: store_def deep_equal_def updateStore_def Let_def)

text \<open>
  What \<^verbatim>\<open>JSON.parse\<close> makes of what \<^verbatim>\<open>JSON.stringify\<close> wrote, and what is read from
  it.
\<close>

lemma read_written [simp]: "read (written x) = read x"
  by (cases x) simp_all

lemma read_map_field [simp]: "read (map_field f x) = map_option f (read x)"
  by (cases x) simp_all

lemma parse_stringify_object:
  "JSON_parse (JSON_stringify env (VObject r)) = Inr (VObject (toJSON env r))"
  by simp

lemma toJSON_reads [simp]:
  "read (current (toJSON env r)) = read (current r)"
  "read (darkClass (toJSON env r)) = read (darkClass r)"
  "read (lightClass (toJSON env r)) = read (lightClass r)"
  "read (dark (toJSON env r)) = map_option (throughJSON env) (read (dark r))"
  "read (light (toJSON env r)) = map_option (throughJSON env) (read (light r))"
  "read (previewParams (toJSON env r)) = map_option toJSON_preview (read (previewParams r))"
  by (simp_all add: toJSON_def)





text \<open>
  \<^verbatim>\<open>setMode\<close> when the store cannot be read as an object, and when it can: the three
  calls \<^verbatim>\<open>setOptions\<close>, \<^verbatim>\<open>setDark\<close> and \<^verbatim>\<open>emit\<close>, then the applicators.
\<close>

lemma setMode_error:
  "fst (store env emptyParams w) = Inl e \<Longrightarrow> setMode env pp m w = (Inl e, w)"
  using store_emptyParams_eq [of env w "Inl e"] by (simp add: setMode_def)

lemma setMode_null:
  "fst (store env emptyParams w) = Inr v \<Longrightarrow> fieldsOf v = Inl e \<Longrightarrow>
   setMode env pp m w = (Inl e, w)"
  using store_emptyParams_eq [of env w "Inr v"] by (simp add: setMode_def)

lemma setMode_ok:
  assumes "fst (store env emptyParams w) = Inr v" and "fieldsOf v = Inr r"
  shows "setMode env pp m w =
     (case updateManager env r
             (emit (m = Dark) (setDark (m = Dark) (setOptions (themeOf r m) w))) of
        (Inl e, w5) \<Rightarrow> (Inl e, w5)
      | (Inr u, w5) \<Rightarrow> (if pp \<noteq> None then updatePreview env r w5 else (Inr (), w5)))"
  by (simp add: setMode_def store_emptyParams_eq [OF assms(1)] assms(2) Let_def)

lemma setMode_result:
  assumes "fst (store env emptyParams w) = Inr v" and "fieldsOf v = Inr r"
  shows "\<exists>w5. w5 = snd (updateManager env r
                  (emit (m = Dark) (setDark (m = Dark) (setOptions (themeOf r m) w))))
      \<and> (snd (setMode env pp m w) = w5 \<or> snd (setMode env pp m w) = snd (updatePreview env r w5))"
proof -
  let ?w4 = "emit (m = Dark) (setDark (m = Dark) (setOptions (themeOf r m) w))"
  obtain x w5 where um: "updateManager env r ?w4 = (x, w5)"
    by (cases "updateManager env r ?w4")
  have "snd (setMode env pp m w) = w5 \<or> snd (setMode env pp m w) = snd (updatePreview env r w5)"
    by (simp add: setMode_ok [OF assms] um split: sum.splits)
  with um show ?thesis by simp
qed

lemma setMode_frame:
  assumes "fst (store env emptyParams w) = Inr v" and "fieldsOf v = Inr r"
  shows "localStorage (snd (setMode env pp m w)) = localStorage w"
    and "isDark (snd (setMode env pp m w)) = (m = Dark)"
    and "theme (snd (setMode env pp m w)) = themeOf r m"
proof -
  let ?w4 = "emit (m = Dark) (setDark (m = Dark) (setOptions (themeOf r m) w))"
  let ?w5 = "snd (updateManager env r ?w4)"
  have w4: "localStorage ?w4 = localStorage w" "isDark ?w4 = (m = Dark)" "theme ?w4 = themeOf r m"
    by (simp_all add: emit_def setDark_def setOptions_def)
  have w5: "localStorage ?w5 = localStorage w" "isDark ?w5 = (m = Dark)" "theme ?w5 = themeOf r m"
    using w4 by simp_all
  have "snd (setMode env pp m w) = ?w5 \<or> snd (setMode env pp m w) = snd (updatePreview env r ?w5)"
    using setMode_result [OF assms, of m pp] by simp
  then show "localStorage (snd (setMode env pp m w)) = localStorage w"
    and "isDark (snd (setMode env pp m w)) = (m = Dark)"
    and "theme (snd (setMode env pp m w)) = themeOf r m"
    using w5 by auto
qed

lemma setMode_localStorage: "localStorage (snd (setMode env pp m w)) = localStorage w"
proof (cases "fst (store env emptyParams w)")
  case (Inl e)
  then show ?thesis by (simp add: setMode_error)
next
  case (Inr v)
  show ?thesis
  proof (cases "fieldsOf v")
    case (Inl e)
    with Inr show ?thesis by (simp add: setMode_null)
  next
    case r: (Inr r)
    from Inr r show ?thesis by (rule setMode_frame)
  qed
qed

lemma setMode_trace:
  assumes "fst (store env emptyParams w) = Inr v" and "fieldsOf v = Inr r"
  shows "\<exists>es1 es2. trace (snd (setMode env pp m w)) =
            trace w @ [SetOptions (themeOf r m), SetDark (m = Dark), Emit (m = Dark)] @ es1 @ es2
          \<and> list_all isShell es1 \<and> list_all isFrame es2"
proof -
  let ?w4 = "emit (m = Dark) (setDark (m = Dark) (setOptions (themeOf r m) w))"
  let ?w5 = "snd (updateManager env r ?w4)"
  have t4: "trace ?w4 = trace w @ [SetOptions (themeOf r m), SetDark (m = Dark), Emit (m = Dark)]"
    by (simp add: emit_def setDark_def setOptions_def)
  obtain es1 where e1: "trace ?w5 = trace ?w4 @ es1" "list_all isShell es1"
    using updateManager_trace [of env r ?w4] by auto
  obtain es2 where e2: "trace (snd (updatePreview env r ?w5)) = trace ?w5 @ es2" "list_all isFrame es2"
    using updatePreview_trace by blast
  have "snd (setMode env pp m w) = ?w5 \<or> snd (setMode env pp m w) = snd (updatePreview env r ?w5)"
    using setMode_result [OF assms, of m pp] by simp
  then show ?thesis
  proof
    assume "snd (setMode env pp m w) = ?w5"
    with t4 e1 have "trace (snd (setMode env pp m w)) =
        trace w @ [SetOptions (themeOf r m), SetDark (m = Dark), Emit (m = Dark)] @ es1 @ []"
      by simp
    with e1 show ?thesis by (intro exI [of _ es1] exI [of _ "[]"]) simp
  next
    assume "snd (setMode env pp m w) = snd (updatePreview env r ?w5)"
    with t4 e1 e2 have "trace (snd (setMode env pp m w)) =
        trace w @ [SetOptions (themeOf r m), SetDark (m = Dark), Emit (m = Dark)] @ es1 @ es2"
      by simp
    with e1 e2 show ?thesis by blast
  qed
qed


section \<open>Writing, reading back and rendering\<close>



lemma updateMode_explicit:
  assumes "fst (store env emptyParams w) = Inr v"
  shows "updateMode env pp (Some m) w =
     setMode env pp m (updateStore env (VObject ((ownProperties v)\<lparr>current := Value m\<rparr>)) w)"
  by (simp add: updateMode_def store_emptyParams_eq [OF assms])

lemma updateMode_toggle:
  assumes "fst (store env emptyParams w) = Inr v" and "fieldsOf v = Inr r"
  shows "updateMode env pp None w =
     setMode env pp (if read (current r) = Some Dark then Light else Dark)
       (updateStore env
          (VObject ((ownProperties v)
             \<lparr>current := Value (if read (current r) = Some Dark then Light else Dark)\<rparr>)) w)"
  by (simp add: updateMode_def store_emptyParams_eq [OF assms(1)] assms(2))

lemma written_world:
  "fst (store env emptyParams (updateStore env (VObject r) w)) = Inr (VObject (toJSON env r))"
  "fieldsOf (VObject (toJSON env r)) = Inr (toJSON env r)"
  by (simp_all add: store_after_updateStore)

lemma setMode_after_write:
  "localStorage (snd (setMode env pp m (updateStore env v w))) = Some (JSON_stringify env v)"
  by (simp add: setMode_localStorage updateStore_def)

lemma setMode_after_write_isDark:
  "isDark (snd (setMode env pp m (updateStore env (VObject r) w))) = (m = Dark)"
  by (rule setMode_frame(2) [OF written_world])

lemma persistedCurrent_written:
  "localStorage w = Some (JSON_stringify env (VObject r)) \<Longrightarrow>
   persistedCurrent w = read (current r)"
  by (simp add: persistedCurrent_def)


lemma configEffect_ok:
  assumes "fst (store env emptyParams w) = Inr v"
  shows "configEffect env dmp w =
     setMode env (read (previewParams dmp))
       (withDefault (read (current (spread (ownProperties v) dmp))) Light)
       (updateStore env (VObject (spread (ownProperties v) dmp)) w)"
  using store_emptyParams_eq [OF written_world(1), of env "spread (ownProperties v) dmp" w]
  by (simp add: configEffect_def store_emptyParams_eq [OF assms] renderTheme_def)

lemma configEffect_facts:
  assumes "fst (store env emptyParams w) = Inr v"
  shows "localStorage (snd (configEffect env dmp w))
           = Some (JSON_stringify env (VObject (spread (ownProperties v) dmp)))"
    and "isDark (snd (configEffect env dmp w))
           = (withDefault (read (current (spread (ownProperties v) dmp))) Light = Dark)"
  by (simp_all add: configEffect_ok [OF assms] setMode_after_write setMode_after_write_isDark)

lemma not_applicator_head:
  "list_all (\<lambda>e. \<not> isApplicator e) [SetOptions t, SetDark b, Emit c]"
  "list_all (\<lambda>e. \<not> isShell e) [SetOptions t, SetDark b, Emit c]"
  "list_all (\<lambda>e. \<not> isFrame e) [SetOptions t, SetDark b, Emit c]"
  by (simp_all add: isApplicator_def isShell_def isFrame_def)

lemma shell_not_emit: "list_all isShell es \<Longrightarrow> list_all (\<lambda>e. \<not> isEmit e \<and> \<not> isFrame e) es"
  by (auto simp: list_all_iff isShell_def isFrame_def elim!: isEmit.elims)

lemma frame_not_emit: "list_all isFrame es \<Longrightarrow> list_all (\<lambda>e. \<not> isEmit e \<and> \<not> isShell e) es"
  by (auto simp: list_all_iff isShell_def isFrame_def elim!: isEmit.elims split: option.splits)

lemma ex_framed_setMode_trace:
  "fresh ex_framed (snd (setMode ex_env (Some ex_preview) Dark ex_framed)) =
     [SetOptions (Some ''#000''), SetDark True, Emit True,
      ClassAdd ManagerBody ''dark'', ClassRemove ManagerBody ''light'',
      ClassAdd (PreviewNode 0) ''dark'', ClassRemove (PreviewNode 0) ''light'',
      SetAttribute (PreviewNode 0) ''theme'' ''dark'']"
  by (simp add: fresh_def setMode_def store_def emptyParams_def ex_framed_def ex_world_def
      ex_light_def ex_preview_def ex_document_def ex_element_def Let_def setOptions_def
      setDark_def emit_def updateManager_def updatePreview_def toggleDarkClass_def
      toggleDarkAttribute_def classList_add_def classList_remove_def setAttribute_def
      query_def iframeDocument_def selector_def withDefault_def defaultParams_def
      defaultPreviewParams_def update_node_def token_add_def token_remove_def
      valid_example_tokens)

lemma token_add_idem: "token_add a (token_add a e) = token_add a e"
  by (simp add: token_add_def)

lemma toggle_tokens_idem:
  "token_remove i (token_add a (token_remove i (token_add a e))) = token_remove i (token_add a e)"
  by (simp add: token_add_def token_remove_def)

lemma toggle_tokens_present:
  "a \<noteq> i \<Longrightarrow> a \<in> set (classList (token_remove i (token_add a e)))"
  by (simp add: token_add_def token_remove_def)

lemma toggle_tokens_absent: "i \<notin> set (classList (token_remove i (token_add a e)))"
  by (simp add: token_add_def token_remove_def)

lemma classesOf_mutate:
  "classesOf el (mutate el f w) = Some cs \<Longrightarrow> \<exists>e. cs = classList (f e)"
  by (cases el; cases "iframe w")
     (auto simp add: iframeDocument_def update_node_def split: option.splits)

lemma classesOf_trace_update [simp]: "classesOf el (w\<lparr>trace := t\<rparr>) = classesOf el w"
  by (cases el) (simp_all add: iframeDocument_def)

lemma toggleDarkClass_twice:
  "body (snd (toggleDarkClass env el r (snd (toggleDarkClass env el r w))))
     = body (snd (toggleDarkClass env el r w))
   \<and> iframe (snd (toggleDarkClass env el r (snd (toggleDarkClass env el r w))))
     = iframe (snd (toggleDarkClass env el r w))"
proof (cases "validate_token (activeClass r)")
  case (Some e)
  then show ?thesis by (simp add: toggleDarkClass_cases)
next
  case None
  note a = this
  show ?thesis
  proof (cases "validate_token (inactiveClass r)")
    case (Some e)
    with a show ?thesis
      by (simp add: toggleDarkClass_cases mutate_trace_update mutate_mutate token_add_idem)
  next
    case None
    with a show ?thesis
      by (simp add: toggleDarkClass_cases mutate_trace_update mutate_mutate toggle_tokens_idem)
  qed
qed

lemma updateMode_localStorage:
  assumes "fst (store env emptyParams w) = Inr v"
  shows "localStorage (snd (updateMode env pp (Some m) w)) =
     Some (JSON_stringify env (VObject ((ownProperties v)\<lparr>current := Value m\<rparr>)))"
  by (simp only: updateMode_explicit [OF assms] setMode_after_write)

lemma updateMode_persisted:
  assumes "fst (store env emptyParams w) = Inr v"
  shows "persistedCurrent (snd (updateMode env pp (Some m) w)) = Some m"
  using persistedCurrent_written [OF updateMode_localStorage [OF assms]] by simp

lemma updateMode_isDark:
  assumes "fst (store env emptyParams w) = Inr v"
  shows "isDark (snd (updateMode env pp (Some m) w)) = (m = Dark)"
  by (simp only: updateMode_explicit [OF assms] setMode_after_write_isDark)

lemma spread_emptyParams [simp]: "spread a emptyParams = a"
  by (simp add: spread_def emptyParams_def orElse_def)

lemma initialMode_empty_slot:
  "localStorage w = None \<Longrightarrow> initialMode env dmp w = (Inr None, w)"
  by (simp add: initialMode_def store_empty_slot params_def spread_def defaultParams_def
      orElse_def)

lemma initialMode_Json:
  "localStorage w = Some (Text (VObject s)) \<Longrightarrow>
   \<exists>w1 s1. initialMode env dmp w = (Inr (read (current s)), w1)
      \<and> fst (store env emptyParams w1) = Inr (VObject s1)
      \<and> read (current s1) = read (current s)"
proof -
  assume ls: "localStorage w = Some (Text (VObject s))"
  let ?ut = "params dmp"
  let ?d = "read (dark ?ut) \<noteq> None \<and> read (dark ?ut) \<noteq> read (dark s)"
  let ?l = "read (light ?ut) \<noteq> None \<and> read (light ?ut) \<noteq> read (light s)"
  let ?s1 = "if ?d then s\<lparr>dark := dark ?ut\<rparr> else s"
  let ?s2 = "if ?l then ?s1\<lparr>light := light ?ut\<rparr> else ?s1"
  let ?w1 = "snd (store env ?ut w)"
  have st: "fst (store env ?ut w) = Inr (VObject ?s2)"
    by (simp add: store_Json [OF ls] Let_def)
  have c2: "current ?s2 = current s" by simp
  have im: "initialMode env dmp w = (Inr (read (current s)), ?w1)"
    using st c2 by (cases "store env ?ut w") (simp add: initialMode_def)
  have "localStorage ?w1 = Some (Text (VObject s))
      \<or> localStorage ?w1 = Some (Text (VObject (toJSON env ?s2)))"
    using ls by (simp add: store_Json [OF ls] Let_def)
  then show ?thesis
  proof
    assume a: "localStorage ?w1 = Some (Text (VObject s))"
    have "fst (store env emptyParams ?w1) = Inr (VObject s)"
      by (simp add: store_emptyParams_Text [OF a])
    with im show ?thesis by blast
  next
    assume a: "localStorage ?w1 = Some (Text (VObject (toJSON env ?s2)))"
    have "fst (store env emptyParams ?w1) = Inr (VObject (toJSON env ?s2))"
      by (simp add: store_emptyParams_Text [OF a])
    moreover have "read (current (toJSON env ?s2)) = read (current s)"
      by (simp only: toJSON_reads c2)
    ultimately show ?thesis using im by blast
  qed
qed

text \<open>
  The last effect leaves a persisted mode alone; the effect on the parameters has by then
  written the caller's \<^verbatim>\<open>current\<close> over it.
\<close>

lemma initEffect_respects_initialMode:
  "initEffect env dmp matches (Some m) w = (Inr (), w)"
  by (simp add: initEffect_def)

lemma mount_config_overrides_current:
  assumes "localStorage w = Some (Text (VObject s))" and "read (current s) = Some Light"
    and "read (current dmp) = Some Dark"
  shows "persistedCurrent (snd (mount env dmp matches w)) = Some Dark"
    and "isDark (snd (mount env dmp matches w))"
proof -
  let ?w0 = "w\<lparr>isDark := matches\<rparr>"
  have ls0: "localStorage ?w0 = Some (Text (VObject s))" using assms(1) by simp
  obtain w1 s1 where im: "initialMode env dmp ?w0 = (Inr (read (current s)), w1)"
      and st1: "fst (store env emptyParams w1) = Inr (VObject s1)"
    using initialMode_Json [OF ls0, of env dmp] by blast
  have cur: "read (current (spread (ownProperties (VObject s1)) dmp)) = Some Dark"
    using assms(3) by (cases "current dmp") (simp_all add: spread_def orElse_def)
  have m: "snd (mount env dmp matches w) = snd (configEffect env dmp w1)"
    using assms(2)
    by (cases "configEffect env dmp w1")
       (simp add: mount_def im initEffect_respects_initialMode split: sum.splits)
  show "persistedCurrent (snd (mount env dmp matches w)) = Some Dark"
    using persistedCurrent_written [OF configEffect_facts(1) [OF st1, of dmp]] cur
    by (simp only: m)
  show "isDark (snd (mount env dmp matches w))"
    using configEffect_facts(2) [OF st1, of dmp] cur by (simp add: m withDefault_def)
qed

lemma ex_world_setMode_completes:
  assumes "fst (store ex_env emptyParams w) = Inr (VObject r)"
    and "activeClass (r :: string DarkModeParams) \<in> {''dark'', ''light''}"
    and "inactiveClass r \<in> {''dark'', ''light''}"
  shows "fst (setMode ex_env None m w) = Inr ()"
proof -
  have v: "validate_token (activeClass r) = None" "validate_token (inactiveClass r) = None"
    using assms(2,3) valid_example_tokens(1,2) by auto
  have f: "fieldsOf (VObject r) = Inr r" by simp
  let ?w4 = "emit (m = Dark) (setDark (m = Dark) (setOptions (themeOf r m) w))"
  have t: "fst (toggleDarkClass ex_env ManagerBody r ?w4) = Inr ()"
    using v by (simp add: toggleDarkClass_completes)
  have "fst (updateManager ex_env r ?w4) = Inr ()"
    using t by (cases "body ?w4") (simp_all add: updateManager_def)
  then show ?thesis
    by (cases "updateManager ex_env r ?w4")
       (simp add: setMode_ok [OF assms(1) f] Let_def)
qed

lemma ex_world_config_completes:
  "fst (configEffect ex_env (emptyParams\<lparr>current := c\<rparr>) (ex_world\<lparr>isDark := b\<rparr>)) = Inr ()"
proof -
  let ?w = "ex_world\<lparr>isDark := b\<rparr>"
  let ?dmp = "emptyParams\<lparr>current := c\<rparr> :: string DarkModeParams"
  let ?rec = "spread (defaultParams ex_env) ?dmp"
  have st0: "fst (store ex_env emptyParams ?w) = Inr (VObject (defaultParams ex_env))"
    by (simp add: store_empty_slot ex_world_def)
  have a: "activeClass (toJSON ex_env ?rec) \<in> {''dark'', ''light''}"
     "inactiveClass (toJSON ex_env ?rec) \<in> {''dark'', ''light''}"
    by (simp_all add: activeClass_def inactiveClass_def spread_def orElse_def defaultParams_def
        emptyParams_def withDefault_def)
  have pp: "read (previewParams (emptyParams :: string DarkModeParams)) = None"
    by (simp add: emptyParams_def)
  have "configEffect ex_env ?dmp ?w =
      setMode ex_env None (withDefault (read (current ?rec)) Light)
        (updateStore ex_env (VObject ?rec) ?w)"
    using configEffect_ok [OF st0, of ?dmp] by (simp add: pp)
  then show ?thesis
    by (simp only: ex_world_setMode_completes [OF written_world(1) a])
qed


section \<open>The preference store\<close>

text \<open>
  C10. With no item in the slot, \<^verbatim>\<open>store(o)\<close> returns the defaults overlaid with \<open>o\<close>
  and changes nothing: the slot stays empty and no call is made, so the first read does
  not create the record in storage.
\<close>

theorem store_first_read_no_write:
  "localStorage w = None \<Longrightarrow>
   store env userTheme w = (Inr (VObject (spread (defaultParams env) userTheme)), w)"
  by (rule store_empty_slot)

theorem store_first_read_no_write_witness:
  "localStorage ex_world = None \<and>
   store ex_env ex_overrides ex_world =
     (Inr (VObject \<lparr>current = Missing, dark = Value ''#111'', darkClass = Value ''dark'',
                    light = Value ''#fff'', lightClass = Value ''light'',
                    previewParams = Missing\<rparr>),
      ex_world) \<and>
   localStorage (snd (store ex_env ex_overrides ex_world)) = None"
proof -
  have h: "localStorage ex_world = None" by (simp add: ex_world_def)
  show ?thesis
    using h store_first_read_no_write [OF h, of ex_env ex_overrides]
    by (simp add: spread_def defaultParams_def ex_overrides_def emptyParams_def orElse_def
        ex_env_def)
qed

text \<open>
  C9, as amended. When the slot holds text that \<^verbatim>\<open>JSON.parse\<close> rejects, \<^verbatim>\<open>store\<close> lets
  the exception through for every argument: the result is the error, never the defaults
  (that branch is taken only for an empty slot), and nothing is written. Called without
  overrides on a slot that holds text, \<^verbatim>\<open>store\<close> returns what \<^verbatim>\<open>JSON.parse\<close> makes of
  the text, whether or not that is a record, and writes nothing.
\<close>

theorem store_propagates_parse_error:
  assumes "localStorage w = Some storedItem"
  shows "(storedItem = Malformed s \<longrightarrow> store env userTheme w = (Inl SyntaxError, w))
       \<and> (JSON_parse storedItem = Inl e \<longrightarrow> store env userTheme w = (Inl e, w))
       \<and> store env emptyParams w = (JSON_parse storedItem, w)"
  using assms by (simp add: store_emptyParams) (simp add: store_def)

theorem store_propagates_parse_error_witness:
  "localStorage ex_malformed = Some (Malformed ''{'')
   \<and> JSON_parse (Malformed ''{'' :: string item) = Inl SyntaxError
   \<and> store ex_env ex_overrides ex_malformed = (Inl SyntaxError, ex_malformed)
   \<and> store ex_env emptyParams ex_malformed = (Inl SyntaxError, ex_malformed)"
proof -
  have h: "localStorage ex_malformed = Some (Malformed ''{'')" by (simp add: ex_malformed_def)
  have a: "store ex_env ex_overrides ex_malformed = (Inl SyntaxError, ex_malformed)"
    using store_propagates_parse_error [OF h, of "''{''" ex_env ex_overrides] by blast
  have b: "store ex_env emptyParams ex_malformed = (Inl SyntaxError, ex_malformed)"
    using store_propagates_parse_error [OF h, of "''{''" ex_env emptyParams] by blast
  show ?thesis using h a b by simp
qed

text \<open>
  C9 as stated fails for text that is JSON and not a record. With the text \<^verbatim>\<open>null\<close> in
  the slot, \<^verbatim>\<open>store()\<close> returns \<^verbatim>\<open>null\<close> and throws nothing. With the text \<^verbatim>\<open>42\<close> it
  returns the number, and the effect on the parameters then completes and writes a fresh
  record, \<^verbatim>\<open>{}\<close>, over it.
\<close>

theorem store_returns_null_counterexample:
  "store ex_env emptyParams ex_null = (Inr VNull, ex_null)
   \<and> \<not> (\<exists>e. fst (store ex_env emptyParams ex_null) = Inl e)
   \<and> store ex_env emptyParams ex_number = (Inr (VNum 42), ex_number)
   \<and> fst (configEffect ex_env emptyParams ex_number) = Inr ()
   \<and> localStorage (snd (configEffect ex_env emptyParams ex_number))
       = Some (Text (VObject emptyParams))"
proof -
  have a: "store ex_env emptyParams ex_null = (Inr VNull, ex_null)"
    by (simp add: store_emptyParams ex_null_def)
  have b: "store ex_env emptyParams ex_number = (Inr (VNum 42), ex_number)"
    by (simp add: store_emptyParams ex_number_def)
  then have st: "fst (store ex_env emptyParams ex_number) = Inr (VNum 42)" by simp
  have j: "toJSON ex_env (emptyParams :: string DarkModeParams) = emptyParams"
    by (simp add: toJSON_def emptyParams_def)
  have pp: "read (previewParams (emptyParams :: string DarkModeParams)) = None"
    by (simp add: emptyParams_def)
  have cl: "activeClass (emptyParams :: string DarkModeParams) \<in> {''dark'', ''light''}"
     "inactiveClass (emptyParams :: string DarkModeParams) \<in> {''dark'', ''light''}"
    by (simp_all add: activeClass_def inactiveClass_def emptyParams_def withDefault_def)
  have w: "fst (store ex_env emptyParams (updateStore ex_env (VObject emptyParams) ex_number))
      = Inr (VObject emptyParams)"
    using written_world(1) [of ex_env emptyParams ex_number] by (simp only: j)
  have "configEffect ex_env emptyParams ex_number =
      setMode ex_env None (withDefault (read (current (emptyParams :: string DarkModeParams))) Light)
        (updateStore ex_env (VObject emptyParams) ex_number)"
    using configEffect_ok [OF st, of emptyParams] by (simp add: pp)
  then have c: "fst (configEffect ex_env emptyParams ex_number) = Inr ()"
    by (simp only: ex_world_setMode_completes [OF w cl])
  have d: "localStorage (snd (configEffect ex_env emptyParams ex_number))
       = Some (Text (VObject emptyParams))"
    using configEffect_facts(1) [OF st, of emptyParams] by (simp add: j)
  show ?thesis using a b c d by simp
qed

text \<open>
  C4. With a record \<open>s\<close> in the slot, \<^verbatim>\<open>store(o)\<close> replaces \<open>dark\<close> (and likewise
  \<open>light\<close>) exactly when \<open>o\<close> supplies a theme that differs from the stored one, and each
  replacement is followed at once by a write of the record; with no replacement the world
  is untouched. \<open>current\<close> and the other fields are those of \<open>s\<close>.
\<close>

theorem store_merges_theme_overrides:
  assumes "localStorage w = Some (Text (VObject s))"
  shows "let d = (read (dark userTheme) \<noteq> None \<and> read (dark userTheme) \<noteq> read (dark s));
             l = (read (light userTheme) \<noteq> None \<and> read (light userTheme) \<noteq> read (light s));
             s' = s\<lparr>dark := (if d then dark userTheme else dark s),
                    light := (if l then light userTheme else light s)\<rparr>
         in store env userTheme w =
              (Inr (VObject s'),
               if d \<or> l
               then w\<lparr>localStorage := Some (JSON_stringify env (VObject s')),
                      trace := trace w
                                 @ (if d then [SetItem (VObject (s\<lparr>dark := dark userTheme\<rparr>))] else [])
                                 @ (if l then [SetItem (VObject s')] else [])\<rparr>
               else w)
            \<and> (dark s' \<noteq> dark s) = d \<and> (light s' \<noteq> light s) = l
            \<and> current s' = current s \<and> darkClass s' = darkClass s
            \<and> lightClass s' = lightClass s \<and> previewParams s' = previewParams s"
proof -
  have ne: "x \<noteq> y" if "read x \<noteq> read y" for x y :: "'t field"
    using that by auto
  show ?thesis
    using store_Json [OF assms, of env userTheme]
    by (auto simp add: Let_def dest: ne)
qed

theorem store_merges_theme_overrides_witness:
  "localStorage ex_stored = Some (Text (VObject ex_light)) \<and>
   store ex_env ex_overrides ex_stored =
     (Inr (VObject (ex_light\<lparr>dark := Value ''#111''\<rparr>)),
      ex_stored\<lparr>localStorage := Some (Text (VObject (ex_light\<lparr>dark := Value ''#111''\<rparr>))),
                trace := [SetItem (VObject (ex_light\<lparr>dark := Value ''#111''\<rparr>))]\<rparr>)"
proof -
  have h: "localStorage ex_stored = Some (Text (VObject ex_light))" by (simp add: ex_stored_def)
  show ?thesis
    using h store_merges_theme_overrides [OF h, of ex_overrides ex_env]
    by (simp add: Let_def ex_overrides_def emptyParams_def ex_light_def ex_stored_def ex_world_def
        toJSON_def ex_env_def)
qed




section \<open>Applying and committing a mode\<close>




text \<open>
  C5. With a record \<open>s\<close> in the slot, \<^verbatim>\<open>updateMode()\<close> without an argument leaves in
  the slot the record \<open>s\<close> with \<open>current\<close> flipped: dark becomes light, light becomes
  dark, and the value written is always one of the two modes. With an argument \<open>m\<close>, the
  record is written with \<open>current = m\<close> and then \<^verbatim>\<open>setMode(m)\<close> runs on the world so
  written.
\<close>

theorem updateMode_toggles_and_commits:
  assumes "localStorage w = Some (Text (VObject s))"
  shows "(read (current s) = Some Dark \<longrightarrow>
            persistedCurrent (snd (updateMode env pp None w)) = Some Light)
       \<and> (read (current s) = Some Light \<longrightarrow>
            persistedCurrent (snd (updateMode env pp None w)) = Some Dark)
       \<and> persistedCurrent (snd (updateMode env pp None w)) \<in> {Some Light, Some Dark}
       \<and> localStorage (snd (updateMode env pp None w)) =
           Some (JSON_stringify env
                   (VObject (s\<lparr>current := Value (if read (current s) = Some Dark then Light
                                                   else Dark)\<rparr>)))
       \<and> localStorage (snd (updateMode env pp (Some m) w)) =
           Some (JSON_stringify env (VObject (s\<lparr>current := Value m\<rparr>)))
       \<and> updateMode env pp (Some m) w =
           setMode env pp m (updateStore env (VObject (s\<lparr>current := Value m\<rparr>)) w)"
proof -
  have st: "fst (store env emptyParams w) = Inr (VObject s)"
    using assms by (simp add: store_emptyParams_Text)
  have f: "fieldsOf (VObject s) = Inr s" by simp
  let ?c = "if read (current s) = Some Dark then Light else Dark"
  have e: "updateMode env pp (Some m) w =
           setMode env pp m (updateStore env (VObject (s\<lparr>current := Value m\<rparr>)) w)"
    using updateMode_explicit [OF st, of pp m] by simp
  have t: "updateMode env pp None w =
           setMode env pp ?c (updateStore env (VObject (s\<lparr>current := Value ?c\<rparr>)) w)"
    using updateMode_toggle [OF st f, of pp] by simp
  have l1: "localStorage (snd (updateMode env pp None w)) =
           Some (JSON_stringify env (VObject (s\<lparr>current := Value ?c\<rparr>)))"
    by (simp only: t setMode_after_write)
  have l2: "localStorage (snd (updateMode env pp (Some m) w)) =
           Some (JSON_stringify env (VObject (s\<lparr>current := Value m\<rparr>)))"
    by (simp only: e setMode_after_write)
  have p1: "persistedCurrent (snd (updateMode env pp None w)) = Some ?c"
    using persistedCurrent_written [OF l1] by simp
  show ?thesis
    using e l1 l2 p1 by auto
qed

theorem updateMode_toggles_and_commits_witness:
  "localStorage ex_stored = Some (Text (VObject ex_light))
   \<and> persistedCurrent (snd (updateMode ex_env None None ex_stored)) = Some Dark
   \<and> persistedCurrent (snd (updateMode ex_env None (Some Light) ex_stored)) = Some Light
   \<and> persistedCurrent
       (snd (updateMode ex_env None None (snd (updateMode ex_env None None ex_stored))))
       = Some Light"
proof -
  have h: "localStorage ex_stored = Some (Text (VObject ex_light))" by (simp add: ex_stored_def)
  let ?w1 = "snd (updateMode ex_env None None ex_stored)"
  have c: "read (current ex_light) = Some Light" by (simp add: ex_light_def)
  have t1: "persistedCurrent ?w1 = Some Dark"
    using updateMode_toggles_and_commits [OF h, of ex_env None] c by blast
  have "localStorage ?w1 =
      Some (JSON_stringify ex_env (VObject (ex_light\<lparr>current := Value Dark\<rparr>)))"
    using updateMode_toggles_and_commits [OF h, of ex_env None] c by simp
  then have h1: "localStorage ?w1
      = Some (Text (VObject (toJSON ex_env (ex_light\<lparr>current := Value Dark\<rparr>))))"
    by simp
  have c1: "read (current (toJSON ex_env (ex_light\<lparr>current := Value Dark\<rparr>))) = Some Dark"
    by simp
  have t2: "persistedCurrent (snd (updateMode ex_env None None ?w1)) = Some Light"
    using updateMode_toggles_and_commits [OF h1, of ex_env None] c1 by blast
  have "localStorage (snd (updateMode ex_env None (Some Light) ex_stored))
      = Some (JSON_stringify ex_env (VObject (ex_light\<lparr>current := Value Light\<rparr>)))"
    using updateMode_toggles_and_commits [OF h, of ex_env None Light] by blast
  then have t3: "persistedCurrent (snd (updateMode ex_env None (Some Light) ex_stored))
      = Some Light"
    by (simp add: persistedCurrent_def)
  show ?thesis using h t1 t2 t3 by simp
qed

section \<open>The order of the calls in \<^verbatim>\<open>setMode\<close>\<close>

text \<open>
  C2, as amended. When the stored value can be read as an object, the calls of one
  \<^verbatim>\<open>setMode(m)\<close> contain exactly one notification, with payload \<open>m = Dark\<close>; it is emitted
  before every applicator call, and every call on the host shell is made before every
  call on the embedded frame.
\<close>

theorem setMode_notifies_once_before_applicators:
  assumes "fst (store env emptyParams w) = Inr v" and "fieldsOf v = Inr r"
  shows "let w' = snd (setMode env pp m w); es = fresh w w'
         in trace w' = trace w @ es
          \<and> filter isEmit es = [Emit (m = Dark)]
          \<and> all_before isEmit isApplicator es
          \<and> all_before isShell isFrame es"
proof -
  obtain es1 es2 where t: "trace (snd (setMode env pp m w)) =
            trace w @ [SetOptions (themeOf r m), SetDark (m = Dark), Emit (m = Dark)] @ es1 @ es2"
      and s1: "list_all isShell es1" and s2: "list_all isFrame es2"
    using setMode_trace [OF assms] by blast
  let ?hd = "[SetOptions (themeOf r m), SetDark (m = Dark), Emit (m = Dark)]"
  have fr: "fresh w (snd (setMode env pp m w)) = ?hd @ es1 @ es2"
    by (simp add: fresh_def t)
  have n1: "list_all (\<lambda>e. \<not> isEmit e \<and> \<not> isFrame e) es1"
    using s1 by (rule shell_not_emit)
  have n2: "list_all (\<lambda>e. \<not> isEmit e \<and> \<not> isShell e) es2"
    using s2 by (rule frame_not_emit)
  have once: "filter isEmit (?hd @ es1 @ es2) = [Emit (m = Dark)]"
    using n1 n2 by (simp add: filter_empty_conv list_all_iff)
  have noemit: "\<not> list_ex isEmit (es1 @ es2)"
    using n1 n2 by (auto simp: list_ex_iff list_all_iff)
  have a: "all_before isEmit isApplicator (?hd @ es1 @ es2)"
    using noemit all_before_no_P [of isEmit "es1 @ es2" isApplicator]
      all_before_no_Q [of isApplicator ?hd isEmit] not_applicator_head(1) [of "themeOf r m" "m = Dark" "m = Dark"]
    by (simp only: all_before_append [of isEmit isApplicator ?hd "es1 @ es2"])
       (auto simp: list_ex_iff list_all_iff)
  have b1: "all_before isShell isFrame (es1 @ es2)"
    using n1 n2 all_before_no_Q [of isFrame es1 isShell] all_before_no_P [of isShell es2 isFrame]
    by (simp only: all_before_append [of isShell isFrame es1 es2])
       (auto simp: list_ex_iff list_all_iff)
  have b: "all_before isShell isFrame (?hd @ es1 @ es2)"
    using b1 all_before_no_Q [of isFrame ?hd isShell] not_applicator_head(3) [of "themeOf r m" "m = Dark" "m = Dark"]
    by (simp only: all_before_append [of isShell isFrame ?hd "es1 @ es2"])
       (auto simp: list_ex_iff list_all_iff)
  show ?thesis
    unfolding Let_def fr using t once a b by simp
qed

theorem setMode_notifies_once_before_applicators_witness:
  "fst (store ex_env emptyParams ex_framed)
     = Inr (VObject (ex_light\<lparr>current := Value Dark, previewParams := Value ex_preview\<rparr>))
   \<and> fieldsOf (VObject (ex_light\<lparr>current := Value Dark, previewParams := Value ex_preview\<rparr>))
     = Inr (ex_light\<lparr>current := Value Dark, previewParams := Value ex_preview\<rparr>)
   \<and> filter isEmit (fresh ex_framed (snd (setMode ex_env (Some ex_preview) Dark ex_framed)))
       = [Emit True]
   \<and> all_before isEmit isApplicator
       (fresh ex_framed (snd (setMode ex_env (Some ex_preview) Dark ex_framed)))
   \<and> all_before isShell isFrame
       (fresh ex_framed (snd (setMode ex_env (Some ex_preview) Dark ex_framed)))
   \<and> list_ex isShell
       (fresh ex_framed (snd (setMode ex_env (Some ex_preview) Dark ex_framed)))
   \<and> list_ex isFrame
       (fresh ex_framed (snd (setMode ex_env (Some ex_preview) Dark ex_framed)))"
proof -
  have h: "fst (store ex_env emptyParams ex_framed)
      = Inr (VObject (ex_light\<lparr>current := Value Dark, previewParams := Value ex_preview\<rparr>))"
    by (simp add: store_emptyParams ex_framed_def)
  have f: "fieldsOf (VObject (ex_light\<lparr>current := Value Dark, previewParams := Value ex_preview\<rparr>))
     = Inr (ex_light\<lparr>current := Value Dark, previewParams := Value ex_preview\<rparr>)"
    by simp
  have s: "list_ex isShell
       (fresh ex_framed (snd (setMode ex_env (Some ex_preview) Dark ex_framed)))"
     "list_ex isFrame
       (fresh ex_framed (snd (setMode ex_env (Some ex_preview) Dark ex_framed)))"
    by (simp_all add: ex_framed_setMode_trace isShell_def isFrame_def)
  show ?thesis
    using h s setMode_notifies_once_before_applicators [OF h f, of "Some ex_preview" Dark]
    by (simp add: Let_def)
qed

text \<open>
  C2 as stated fails: the notification is not emitted after the applicators have run. In
  the example the class and attribute calls all follow the notification. And when the slot
  holds text that is not JSON, \<^verbatim>\<open>setMode\<close> throws before it emits anything.
\<close>

theorem setMode_emits_before_applicators_counterexample:
  "\<not> all_before isApplicator isEmit
       (fresh ex_framed (snd (setMode ex_env (Some ex_preview) Dark ex_framed)))
   \<and> \<not> list_ex isEmit (fresh ex_malformed (snd (setMode ex_env None Dark ex_malformed)))"
proof -
  have "fst (store ex_env emptyParams ex_malformed) = Inl SyntaxError"
    by (simp add: store_emptyParams ex_malformed_def)
  then have "setMode ex_env None Dark ex_malformed = (Inl SyntaxError, ex_malformed)"
    by (rule setMode_error)
  then have none: "\<not> list_ex isEmit
      (fresh ex_malformed (snd (setMode ex_env None Dark ex_malformed)))"
    by (simp add: fresh_def)
  have order: "\<not> all_before isApplicator isEmit
       (fresh ex_framed (snd (setMode ex_env (Some ex_preview) Dark ex_framed)))"
    by (simp add: ex_framed_setMode_trace isApplicator_def)
  show ?thesis using order none by (rule conjI)
qed

section \<open>The class applicator\<close>

text \<open>
  C8, as amended. A second \<^verbatim>\<open>toggleDarkClass\<close> with the same record leaves the manager
  body and the preview frame as the first left them, for every element and every record.
  The call completes exactly when both class names are valid tokens; when it completes and
  the two names differ, the class of the active mode is on the element after the call and
  the class of the other mode is not.
\<close>

theorem toggleDarkClass_idempotent:
  "let T = (\<lambda>w. snd (toggleDarkClass env el r w))
   in body (T (T w)) = body (T w) \<and> iframe (T (T w)) = iframe (T w)
    \<and> (fst (toggleDarkClass env el r w) = Inr ()) =
        (validate_token (activeClass r) = None \<and> validate_token (inactiveClass r) = None)
    \<and> (fst (toggleDarkClass env el r w) = Inr () \<longrightarrow> activeClass r \<noteq> inactiveClass r \<longrightarrow>
         (\<forall>cs. classesOf el (T w) = Some cs \<longrightarrow>
            activeClass r \<in> set cs \<and> inactiveClass r \<notin> set cs))"
proof -
  have pres: "activeClass r \<in> set cs \<and> inactiveClass r \<notin> set cs"
    if ok: "fst (toggleDarkClass env el r w) = Inr ()"
      and ne: "activeClass r \<noteq> inactiveClass r"
      and cs: "classesOf el (snd (toggleDarkClass env el r w)) = Some cs" for cs
  proof -
    let ?F = "\<lambda>e. token_remove (inactiveClass r) (token_add (activeClass r) e)"
    have v: "validate_token (activeClass r) = None" "validate_token (inactiveClass r) = None"
      using ok by (simp_all add: toggleDarkClass_completes)
    have "classesOf el (mutate el ?F w) = Some cs"
      using cs v by (simp add: toggleDarkClass_cases)
    then obtain e where "cs = classList (?F e)"
      using classesOf_mutate [of el ?F w cs] by auto
    then show ?thesis
      using toggle_tokens_present [OF ne, of e] toggle_tokens_absent [of "inactiveClass r" "activeClass r" e]
      by simp
  qed
  show ?thesis
    unfolding Let_def
    using toggleDarkClass_twice [of env el r w] toggleDarkClass_completes [of env el r w] pres
    by blast
qed

theorem toggleDarkClass_idempotent_witness:
  "fst (toggleDarkClass ex_env ManagerBody ex_light ex_world) = Inr ()
   \<and> activeClass ex_light = ''light'' \<and> inactiveClass ex_light = ''dark''
   \<and> classesOf ManagerBody (snd (toggleDarkClass ex_env ManagerBody ex_light ex_world))
       = Some [''light'']
   \<and> body (snd (toggleDarkClass ex_env ManagerBody ex_light
                  (snd (toggleDarkClass ex_env ManagerBody ex_light ex_world))))
       = body (snd (toggleDarkClass ex_env ManagerBody ex_light ex_world))
   \<and> ''light'' \<in> set [''light''] \<and> ''dark'' \<notin> set [''light'']"
proof -
  have n: "activeClass ex_light = ''light''" "inactiveClass ex_light = ''dark''"
    by (simp_all add: activeClass_def inactiveClass_def ex_light_def withDefault_def)
  have ok: "fst (toggleDarkClass ex_env ManagerBody ex_light ex_world) = Inr ()"
    by (simp add: toggleDarkClass_completes n valid_example_tokens)
  have c: "classesOf ManagerBody (snd (toggleDarkClass ex_env ManagerBody ex_light ex_world))
      = Some [''light'']"
    by (simp add: toggleDarkClass_cases n valid_example_tokens ex_world_def ex_element_def
        token_add_def token_remove_def)
  show ?thesis
    using toggleDarkClass_idempotent [of ex_env ManagerBody ex_light ex_world] ok c n
    by (simp add: Let_def)
qed

text \<open>
  C8 as stated fails for a record that gives the same class name to both modes (the class
  is added and then removed) and for a record whose active class is the empty string (the
  class list rejects it): in both the class of the active mode is absent after the call.
\<close>

theorem toggleDarkClass_active_class_counterexample:
  "\<not> (\<exists>cs. classesOf ManagerBody (snd (toggleDarkClass ex_env ManagerBody ex_same ex_world))
             = Some cs
           \<and> activeClass ex_same \<in> set cs)
   \<and> \<not> (\<exists>cs. classesOf ManagerBody (snd (toggleDarkClass ex_env ManagerBody ex_blank ex_world))
             = Some cs
           \<and> activeClass ex_blank \<in> set cs)"
proof -
  have s: "activeClass ex_same = ''theme''" "inactiveClass ex_same = ''theme''"
    by (simp_all add: activeClass_def inactiveClass_def ex_same_def ex_light_def withDefault_def)
  have b: "activeClass ex_blank = []"
    by (simp add: activeClass_def ex_blank_def ex_light_def withDefault_def)
  have f1: "classesOf ManagerBody (snd (toggleDarkClass ex_env ManagerBody ex_same ex_world))
      = Some []"
    by (simp add: toggleDarkClass_cases s valid_example_tokens ex_world_def ex_element_def
        token_add_def token_remove_def)
  have f2: "classesOf ManagerBody (snd (toggleDarkClass ex_env ManagerBody ex_blank ex_world))
      = Some []"
    by (simp add: toggleDarkClass_cases b valid_example_tokens ex_world_def ex_element_def)
  show ?thesis unfolding f1 f2 by simp
qed

section \<open>Initialisation\<close>

text \<open>
  C3. On an empty slot the memoised initial mode is undefined, and the last effect, run with
  an undefined initial mode, is \<^verbatim>\<open>updateMode(defaultMode)\<close> when the parameters carry a
  default mode, whatever the system preference; else \<^verbatim>\<open>updateMode('dark')\<close> when the
  system prefers dark; else nothing. When the effect on the parameters completes, the mount
  ends with that effect: with no default mode the effect on the parameters has rendered
  light and written no mode, and after the mount the mode shown and the mode in the slot
  are the resolved ones.
\<close>

theorem mount_resolves_by_priority:
  assumes "localStorage w = None"
  shows "initialMode env dmp (w\<lparr>isDark := matches\<rparr>) = (Inr None, w\<lparr>isDark := matches\<rparr>)
     \<and> (\<forall>v. initEffect env dmp matches None v =
            (case read (current dmp) of
               Some defaultMode \<Rightarrow>
                 updateMode env (read (previewParams dmp)) (Some defaultMode) v
             | None \<Rightarrow> (if matches then updateMode env (read (previewParams dmp)) (Some Dark) v
                        else (Inr (), v))))
     \<and> (fst (configEffect env dmp (w\<lparr>isDark := matches\<rparr>)) = Inr () \<longrightarrow>
          (let w2 = snd (configEffect env dmp (w\<lparr>isDark := matches\<rparr>))
           in mount env dmp matches w = initEffect env dmp matches None w2
            \<and> (read (current dmp) = None \<longrightarrow> \<not> isDark w2 \<and> persistedCurrent w2 = None)
            \<and> isDark (snd (mount env dmp matches w)) =
                ((case read (current dmp) of Some defaultMode \<Rightarrow> defaultMode
                  | None \<Rightarrow> (if matches then Dark else Light)) = Dark)
            \<and> persistedCurrent (snd (mount env dmp matches w)) =
                (case read (current dmp) of Some defaultMode \<Rightarrow> Some defaultMode
                 | None \<Rightarrow> (if matches then Some Dark else None))))"
proof -
  let ?w0 = "w\<lparr>isDark := matches\<rparr>"
  let ?pp = "read (previewParams dmp)"
  let ?rec = "spread (defaultParams env) dmp"
  have slot: "localStorage ?w0 = None" using assms(1) by simp
  have im: "initialMode env dmp ?w0 = (Inr None, ?w0)"
    by (rule initialMode_empty_slot [OF slot])
  have ie: "initEffect env dmp matches None v =
          (case read (current dmp) of
             Some defaultMode \<Rightarrow> updateMode env ?pp (Some defaultMode) v
           | None \<Rightarrow> (if matches then updateMode env ?pp (Some Dark) v else (Inr (), v)))" for v
    by (simp add: initEffect_def)
  have rest: "mount env dmp matches w = initEffect env dmp matches None w2
            \<and> (read (current dmp) = None \<longrightarrow> \<not> isDark w2 \<and> persistedCurrent w2 = None)
            \<and> isDark (snd (mount env dmp matches w)) =
                ((case read (current dmp) of Some defaultMode \<Rightarrow> defaultMode
                  | None \<Rightarrow> (if matches then Dark else Light)) = Dark)
            \<and> persistedCurrent (snd (mount env dmp matches w)) =
                (case read (current dmp) of Some defaultMode \<Rightarrow> Some defaultMode
                 | None \<Rightarrow> (if matches then Some Dark else None))"
    if fin: "fst (configEffect env dmp ?w0) = Inr ()" and w2: "w2 = snd (configEffect env dmp ?w0)"
    for w2
  proof -
    have st0: "fst (store env emptyParams ?w0) = Inr (VObject (defaultParams env))"
      by (simp add: store_empty_slot [OF slot])
    have ce: "configEffect env dmp ?w0 = (Inr (), w2)"
      using fin by (cases "configEffect env dmp ?w0") (simp add: w2)
    have ls2: "localStorage w2 = Some (JSON_stringify env (VObject ?rec))"
      using configEffect_facts(1) [OF st0, of dmp] by (simp add: w2)
    have d2: "isDark w2 = (withDefault (read (current ?rec)) Light = Dark)"
      using configEffect_facts(2) [OF st0, of dmp] by (simp add: w2)
    have cur: "read (current ?rec) = read (current dmp)"
      by (cases "current dmp") (simp_all add: spread_def defaultParams_def orElse_def)
    have p2: "persistedCurrent w2 = read (current dmp)"
      using persistedCurrent_written [OF ls2] cur by simp
    have st2: "fst (store env emptyParams w2) = Inr (VObject (toJSON env ?rec))"
      using ls2 by (simp add: store_emptyParams_Text)
    have m: "mount env dmp matches w = initEffect env dmp matches None w2"
      by (simp add: mount_def im ce)
    have light: "read (current dmp) = None \<longrightarrow> \<not> isDark w2 \<and> persistedCurrent w2 = None"
      using d2 p2 cur by (simp add: withDefault_def)
    have dk: "isDark (snd (mount env dmp matches w)) =
          ((case read (current dmp) of Some defaultMode \<Rightarrow> defaultMode
            | None \<Rightarrow> (if matches then Dark else Light)) = Dark)"
      unfolding m ie using updateMode_isDark [OF st2, of ?pp] light
      by (simp split: option.splits)
    have pc: "persistedCurrent (snd (mount env dmp matches w)) =
          (case read (current dmp) of Some defaultMode \<Rightarrow> Some defaultMode
           | None \<Rightarrow> (if matches then Some Dark else None))"
      unfolding m ie using updateMode_persisted [OF st2, of ?pp] light
      by (simp split: option.splits)
    show ?thesis using m light dk pc by simp
  qed
  show ?thesis
    unfolding Let_def using im ie rest by blast
qed

theorem mount_resolves_by_priority_witness:
  "localStorage ex_world = None
   \<and> fst (configEffect ex_env (emptyParams\<lparr>current := Value Dark\<rparr>) (ex_world\<lparr>isDark := False\<rparr>))
       = Inr ()
   \<and> isDark (snd (mount ex_env (emptyParams\<lparr>current := Value Dark\<rparr>) False ex_world))
   \<and> persistedCurrent (snd (mount ex_env (emptyParams\<lparr>current := Value Dark\<rparr>) False ex_world))
       = Some Dark
   \<and> fst (configEffect ex_env emptyParams (ex_world\<lparr>isDark := True\<rparr>)) = Inr ()
   \<and> isDark (snd (mount ex_env emptyParams True ex_world))
   \<and> persistedCurrent (snd (mount ex_env emptyParams True ex_world)) = Some Dark
   \<and> fst (configEffect ex_env emptyParams (ex_world\<lparr>isDark := False\<rparr>)) = Inr ()
   \<and> \<not> isDark (snd (mount ex_env emptyParams False ex_world))
   \<and> persistedCurrent (snd (mount ex_env emptyParams False ex_world)) = None"
proof -
  have h: "localStorage ex_world = None" by (simp add: ex_world_def)
  have e: "(emptyParams\<lparr>current := Missing\<rparr> :: string DarkModeParams) = emptyParams"
    by (simp add: emptyParams_def)
  have k: "fst (configEffect ex_env (emptyParams\<lparr>current := Value Dark\<rparr>) (ex_world\<lparr>isDark := False\<rparr>))
       = Inr ()"
      "fst (configEffect ex_env emptyParams (ex_world\<lparr>isDark := True\<rparr>)) = Inr ()"
      "fst (configEffect ex_env emptyParams (ex_world\<lparr>isDark := False\<rparr>)) = Inr ()"
    using ex_world_config_completes [of "Value Dark" False] ex_world_config_completes [of Missing True]
      ex_world_config_completes [of Missing False]
    by (simp_all add: e)
  have c: "read (current (emptyParams\<lparr>current := Value Dark\<rparr> :: string DarkModeParams)) = Some Dark"
      "read (current (emptyParams :: string DarkModeParams)) = None"
    by (simp_all add: emptyParams_def)
  have r1: "isDark (snd (mount ex_env (emptyParams\<lparr>current := Value Dark\<rparr>) False ex_world))
      \<and> persistedCurrent (snd (mount ex_env (emptyParams\<lparr>current := Value Dark\<rparr>) False ex_world))
          = Some Dark"
    using mount_resolves_by_priority
            [OF h, unfolded Let_def, THEN conjunct2, THEN conjunct2, THEN mp, OF k(1),
             THEN conjunct2, THEN conjunct2]
    by (simp add: c)
  have r2: "isDark (snd (mount ex_env emptyParams True ex_world))
      \<and> persistedCurrent (snd (mount ex_env emptyParams True ex_world)) = Some Dark"
    using mount_resolves_by_priority
            [OF h, unfolded Let_def, THEN conjunct2, THEN conjunct2, THEN mp, OF k(2),
             THEN conjunct2, THEN conjunct2]
    by (simp add: c)
  have r3: "\<not> isDark (snd (mount ex_env emptyParams False ex_world))
      \<and> persistedCurrent (snd (mount ex_env emptyParams False ex_world)) = None"
    using mount_resolves_by_priority
            [OF h, unfolded Let_def, THEN conjunct2, THEN conjunct2, THEN mp, OF k(3),
             THEN conjunct2, THEN conjunct2]
    by (simp add: c)
  show ?thesis using h k r1 r2 r3 by simp
qed

text \<open>
  C1. The last effect does respect a persisted mode (\<open>initEffect_respects_initialMode\<close>),
  but the effect on the parameters has already written the caller's \<^verbatim>\<open>current\<close> over
  it (\<open>mount_config_overrides_current\<close>). Mounting with the default mode dark on a slot
  whose record says light leaves dark in the slot and dark on the screen.
\<close>

theorem mount_overrides_persisted_light:
  "persistedCurrent ex_stored = Some Light
   \<and> fst (mount ex_env ex_default_dark False ex_stored) = Inr ()
   \<and> persistedCurrent (snd (mount ex_env ex_default_dark False ex_stored)) = Some Dark
   \<and> isDark (snd (mount ex_env ex_default_dark False ex_stored))
   \<and> classesOf ManagerBody (snd (mount ex_env ex_default_dark False ex_stored))
       = Some [''dark'']"
  by (simp add: persistedCurrent_def mount_def initialMode_def configEffect_def initEffect_def
      renderTheme_def params_def spread_def orElse_def ex_default_dark_def
      setMode_def store_def emptyParams_def ex_stored_def ex_world_def ex_env_def
      ex_light_def ex_element_def Let_def setOptions_def updateStore_def
      setDark_def emit_def updateManager_def toggleDarkClass_cases activeClass_def
      inactiveClass_def deep_equal_def withDefault_def token_add_def token_remove_def
      valid_example_tokens)

end
